theory Spec2Isabelle
  imports Complex_Main "HOL-Library.Word" "HOL-Library.Log_Nat"
begin

section \<open>JavaScript values used by the services\<close>

subsection \<open>Strings\<close>

text \<open>
  A JavaScript string is a sequence of 16-bit code units; \<open>length\<close>, \<open>includes\<close>,
  \<open>startsWith\<close>, \<open>split\<close> and \<open>trim\<close> all work on code units. Literals of the source
  are written \<open>str ''...''\<close>; the bullet \<open>U+2022\<close> is the code unit \<open>0x2022\<close>.
\<close>

type_synonym jsstring = "16 word list"

definition str :: "string \<Rightarrow> jsstring" where
  "str s = map of_char s"

definition bullet :: "16 word" where
  "bullet = 0x2022"

fun startsWith :: "jsstring \<Rightarrow> jsstring \<Rightarrow> bool" where
  "startsWith s [] = True"
| "startsWith [] (p # ps) = False"
| "startsWith (c # cs) (p # ps) = (c = p \<and> startsWith cs ps)"

fun str_includes :: "jsstring \<Rightarrow> jsstring \<Rightarrow> bool" where
  "str_includes [] needle = (needle = [])"
| "str_includes (c # cs) needle = (startsWith (c # cs) needle \<or> str_includes cs needle)"

definition endsWith :: "jsstring \<Rightarrow> jsstring \<Rightarrow> bool" where
  "endsWith s suffix = startsWith (rev s) (rev suffix)"

text \<open>
  \<open>WhiteSpace\<close> and \<open>LineTerminator\<close> of ECMAScript: what \<open>trim\<close> strips and what
  \<open>\s\<close> matches in a regular expression.
\<close>

definition isWhiteSpace :: "16 word \<Rightarrow> bool" where
  "isWhiteSpace c =
     (c \<in> set [0x9, 0xA, 0xB, 0xC, 0xD, 0x20, 0xA0, 0x1680, 0x2028, 0x2029,
                0x202F, 0x205F, 0x3000, 0xFEFF]
      \<or> (0x2000 \<le> c \<and> c \<le> 0x200A))"

definition trim :: "jsstring \<Rightarrow> jsstring" where
  "trim s = rev (dropWhile isWhiteSpace (rev (dropWhile isWhiteSpace s)))"

text \<open>\<open>s.split('\n')\<close>: the pieces between line feeds; never the empty list.\<close>

fun split_newline :: "jsstring \<Rightarrow> jsstring list" where
  "split_newline [] = [[]]"
| "split_newline (c # cs) =
     (if c = 0xA then [] # split_newline cs
      else (case split_newline cs of
              [] \<Rightarrow> [[c]]
            | l # ls \<Rightarrow> (c # l) # ls))"

text \<open>
  \<open>toLowerCase\<close>: on a string of ASCII code units it maps \<open>A\<close>..\<open>Z\<close> to \<open>a\<close>..\<open>z\<close>
  and keeps the rest. For any other string the result comes from the platform's Unicode
  case tables, which are not part of the repository: they are the parameter
  \<open>unicodeLower\<close>.
\<close>

definition asciiLower :: "16 word \<Rightarrow> 16 word" where
  "asciiLower c = (if 0x41 \<le> c \<and> c \<le> 0x5A then c + 0x20 else c)"

definition toLowerCase :: "(jsstring \<Rightarrow> jsstring) \<Rightarrow> jsstring \<Rightarrow> jsstring" where
  "toLowerCase unicodeLower s =
     (if list_all (\<lambda>c. c < 0x80) s then map asciiLower s else unicodeLower s)"

text \<open>The decimal rendering of a non-negative integer, as a template literal prints it.\<close>

fun numberToString :: "nat \<Rightarrow> jsstring" where
  "numberToString n =
     (if n < 10 then [of_nat (48 + n)]
      else numberToString (n div 10) @ [of_nat (48 + n mod 10)])"

declare numberToString.simps [simp del]

subsection \<open>Numbers\<close>

text \<open>
  A JavaScript number is an IEEE-754 binary64 value. Finite values are modelled as the
  rationals they denote, and every arithmetic operation of the source as the exact
  operation followed by the rounding \<open>rnd\<close> of the number format, which the functions
  below take as a parameter. \<open>binary64\<close> is round-to-nearest, ties-to-even, with 53
  significant bits (overflow to infinity and subnormal numbers are not modelled: the
  values of the program are lengths, timestamps in seconds and scores).
\<close>

type_synonym number = rat

definition roundTiesToEven :: "rat \<Rightarrow> int" where
  "roundTiesToEven x =
     (let f = \<lfloor>x\<rfloor>; r = x - of_int f
      in if r < 1 / 2 then f
         else if 1 / 2 < r then f + 1
         else if even f then f else f + 1)"

text \<open>For \<open>0 < x\<close>, the exponent \<open>e\<close> with \<open>2 ^ e \<le> x < 2 ^ (e + 1)\<close>.\<close>

definition binaryExponent :: "rat \<Rightarrow> int" where
  "binaryExponent x =
     (if 1 \<le> x then bitlen \<lfloor>x\<rfloor> - 1 else - bitlen (\<lceil>1 / x\<rceil> - 1))"

definition binary64 :: "rat \<Rightarrow> number" where
  "binary64 x =
     (if x = 0 then 0
      else let u = 2 powi (binaryExponent \<bar>x\<bar> - 52)
           in sgn x * of_int (roundTiesToEven (\<bar>x\<bar> / u)) * u)"

text \<open>\<open>a || d\<close> on an optional number and on an optional string.\<close>

definition or_number :: "number option \<Rightarrow> number \<Rightarrow> number" where
  "or_number a d = (case a of None \<Rightarrow> d | Some v \<Rightarrow> if v = 0 then d else v)"

definition or_string :: "jsstring option \<Rightarrow> jsstring \<Rightarrow> jsstring" where
  "or_string a d = (case a of None \<Rightarrow> d | Some s \<Rightarrow> if s = [] then d else s)"

section \<open>Transcription service\<close>

text \<open>
  A segment as the provider sends it (\<open>{start, end, text}\<close>, every property optional)
  and as the service keeps it (\<open>TranscriptionSegment\<close>, \<open>speaker\<close> optional).
\<close>

record ProviderSegment =
  p_start :: "number option"
  p_end :: "number option"
  p_text :: "jsstring option"

record TranscriptionSegment =
  seg_start :: number
  seg_end :: number
  seg_text :: jsstring
  seg_speaker :: "jsstring option"

record TranscriptionResult =
  tr_text :: jsstring
  tr_segments :: "TranscriptionSegment list"
  tr_speakers :: "jsstring list"
  tr_language :: jsstring
  tr_confidence :: number

text \<open>
  \<open>processSegments\<close>: \<open>segments.map((segment, index) => ...)\<close>. The index is below
  \<open>2 ^ 32\<close>, where \<open>Math.floor(index / 5)\<close> is the integer quotient (the double
  \<open>index / 5\<close> is at least \<open>1 / 5\<close> away from the next integer).
\<close>

definition processSegment :: "ProviderSegment \<times> nat \<Rightarrow> TranscriptionSegment" where
  "processSegment = (\<lambda>(segment, index).
     \<lparr>seg_start = or_number (p_start segment) 0,
      seg_end = or_number (p_end segment) 0,
      seg_text = or_string (p_text segment) [],
      seg_speaker = Some (str ''Speaker '' @ numberToString (index div 5 + 1))\<rparr>)"

definition processSegments :: "ProviderSegment list \<Rightarrow> TranscriptionSegment list" where
  "processSegments segments = map processSegment (zip segments [0..<length segments])"

text \<open>
  \<open>identifySpeakers\<close>: a \<open>Set\<close> keeps its elements in insertion order and ignores an
  element it already has; \<open>Array.from\<close> lists them in that order. An absent or empty
  speaker is falsy and is skipped.
\<close>

definition set_add :: "jsstring list \<Rightarrow> jsstring \<Rightarrow> jsstring list" where
  "set_add speakers s = (if s \<in> set speakers then speakers else speakers @ [s])"

definition identifySpeakers_step :: "jsstring list \<Rightarrow> TranscriptionSegment \<Rightarrow> jsstring list" where
  "identifySpeakers_step speakers segment =
     (case seg_speaker segment of
        None \<Rightarrow> speakers
      | Some s \<Rightarrow> if s = [] then speakers else set_add speakers s)"

definition identifySpeakers :: "TranscriptionSegment list \<Rightarrow> jsstring list" where
  "identifySpeakers segments = foldl identifySpeakers_step [] segments"

text \<open>
  \<open>calculateAverageConfidence\<close>: \<open>segmentScore\<close> is the body of the \<open>forEach\<close>, the
  value added to \<open>totalScore\<close> for one segment.
\<close>

definition segmentScore :: "(rat \<Rightarrow> number) \<Rightarrow> TranscriptionSegment \<Rightarrow> number" where
  "segmentScore rnd segment =
     (let textLength = of_nat (length (seg_text segment));
          duration = rnd (seg_end segment - seg_start segment);
          wordsPerSecond = rnd (textLength / max duration 1);
          base = rnd (4 / 5);
          paced = (if 2 < wordsPerSecond \<and> wordsPerSecond < 8
                   then rnd (base + rnd (1 / 10)) else base);
          confidence = (if str_includes (seg_text segment) (str ''.'')
                           \<or> str_includes (seg_text segment) (str ''?'')
                        then rnd (paced + rnd (1 / 20)) else paced)
      in min confidence (rnd (19 / 20)))"

definition calculateAverageConfidence ::
  "(rat \<Rightarrow> number) \<Rightarrow> TranscriptionSegment list \<Rightarrow> number" where
  "calculateAverageConfidence rnd segments =
     (if length segments = 0 then 0
      else rnd (foldl (\<lambda>totalScore segment. rnd (totalScore + segmentScore rnd segment))
                  0 segments
                / of_nat (length segments)))"

text \<open>
  The body the provider returns, with the properties \<open>transcribeAudio\<close> reads, each of
  the type the source's interfaces give it, and the record it builds from them.
\<close>

record TranscriptionData =
  d_text :: "jsstring option"
  d_segments :: "ProviderSegment list option"
  d_language :: "jsstring option"

definition transcriptionResult :: "(rat \<Rightarrow> number) \<Rightarrow> TranscriptionData \<Rightarrow> TranscriptionResult" where
  "transcriptionResult rnd data =
     (let processedSegments =
            processSegments (case d_segments data of None \<Rightarrow> [] | Some segments \<Rightarrow> segments);
          speakers = identifySpeakers processedSegments
      in \<lparr>tr_text = or_string (d_text data) [],
          tr_segments = processedSegments,
          tr_speakers = speakers,
          tr_language = or_string (d_language data) (str ''en''),
          tr_confidence = calculateAverageConfidence rnd processedSegments\<rparr>)"

text \<open>
  The per-segment score as the specification words it, with the bonus of \<open>0.05\<close> for a
  text that \<^emph>\<open>ends with\<close> a full stop or a question mark. It is compared with
  \<open>segmentScore\<close> below and is not part of the program.
\<close>

definition claimed_segmentScore :: "(rat \<Rightarrow> number) \<Rightarrow> TranscriptionSegment \<Rightarrow> number" where
  "claimed_segmentScore rnd segment =
     (let textLength = of_nat (length (seg_text segment));
          duration = rnd (seg_end segment - seg_start segment);
          wordsPerSecond = rnd (textLength / max duration 1);
          base = rnd (4 / 5);
          paced = (if 2 < wordsPerSecond \<and> wordsPerSecond < 8
                   then rnd (base + rnd (1 / 10)) else base);
          confidence = (if endsWith (seg_text segment) (str ''.'')
                           \<or> endsWith (seg_text segment) (str ''?'')
                        then rnd (paced + rnd (1 / 20)) else paced)
      in min confidence (rnd (19 / 20)))"

text \<open>
  The distinct elements of a list in the order of their first appearance, and the
  position at which an element first appears: the words of the specification for the
  \<open>speakers\<close> of a transcript.
\<close>

fun first_appearances :: "'a list \<Rightarrow> 'a list" where
  "first_appearances [] = []"
| "first_appearances (x # xs) = x # first_appearances (filter (\<lambda>y. y \<noteq> x) xs)"

definition first_index :: "'a list \<Rightarrow> 'a \<Rightarrow> nat" where
  "first_index xs x = length (takeWhile (\<lambda>y. y \<noteq> x) xs)"

text \<open>
  Two provider answers used as examples: the three segments of the specification's
  scenario, and six one-second segments that each say \<open>Yes.\<close>
\<close>

definition threeSegments :: "ProviderSegment list" where
  "threeSegments =
     [\<lparr>p_start = Some 0, p_end = Some 2, p_text = Some (str ''Hello.'')\<rparr>,
      \<lparr>p_start = Some 2, p_end = Some 4, p_text = Some (str ''World'')\<rparr>,
      \<lparr>p_start = Some 4, p_end = Some 6, p_text = Some (str ''Again?'')\<rparr>]"

definition sixSegments :: "ProviderSegment list" where
  "sixSegments =
     [\<lparr>p_start = Some 0, p_end = Some 1, p_text = Some (str ''Yes.'')\<rparr>,
      \<lparr>p_start = Some 1, p_end = Some 2, p_text = Some (str ''Yes.'')\<rparr>,
      \<lparr>p_start = Some 2, p_end = Some 3, p_text = Some (str ''Yes.'')\<rparr>,
      \<lparr>p_start = Some 3, p_end = Some 4, p_text = Some (str ''Yes.'')\<rparr>,
      \<lparr>p_start = Some 4, p_end = Some 5, p_text = Some (str ''Yes.'')\<rparr>,
      \<lparr>p_start = Some 5, p_end = Some 6, p_text = Some (str ''Yes.'')\<rparr>]"

definition sixSegmentsData :: TranscriptionData where
  "sixSegmentsData =
     \<lparr>d_text = Some (str ''Yes. Yes. Yes. Yes. Yes. Yes.''),
      d_segments = Some sixSegments,
      d_language = Some (str ''english'')\<rparr>"

section \<open>Summary service\<close>

subsection \<open>Errors and JSON values\<close>

text \<open>
  What a \<open>throw\<close> or a rejected promise carries: an \<open>Error\<close> instance with its name
  and message, or any other value, kept as its string rendering.
\<close>

datatype js_error = JsError jsstring jsstring | NonError jsstring

definition new_Error :: "jsstring \<Rightarrow> js_error" where
  "new_Error message = JsError (str ''Error'') message"

text \<open>\<open>error instanceof Error ? error.message : 'Unknown error'\<close>\<close>

definition messageOf :: "js_error \<Rightarrow> jsstring" where
  "messageOf error = (case error of JsError name message \<Rightarrow> message
                                   | NonError rendering \<Rightarrow> str ''Unknown error'')"

text \<open>
  The values \<open>JSON.parse\<close> returns. A number literal beyond the binary64 range parses
  to an infinity (\<open>JInfinity\<close>, with its sign). An object is its list of properties.
\<close>

datatype json =
    JNull
  | JBool bool
  | JNumber number
  | JInfinity bool
  | JString jsstring
  | JArray "json list"
  | JObject "(jsstring \<times> json) list"

text \<open>
  Reading a property of \<open>null\<close> throws a \<open>TypeError\<close>; of an object it gives the
  property, or \<open>undefined\<close> (\<open>None\<close>); of any other value the names read here give
  \<open>undefined\<close>.
\<close>

definition property :: "json \<Rightarrow> jsstring \<Rightarrow> json option" where
  "property v name = (case v of JObject props \<Rightarrow> map_of props name | _ \<Rightarrow> None)"

fun truthy :: "json \<Rightarrow> bool" where
  "truthy JNull = False"
| "truthy (JBool b) = b"
| "truthy (JNumber n) = (n \<noteq> 0)"
| "truthy (JInfinity negative) = True"
| "truthy (JString s) = (s \<noteq> [])"
| "truthy (JArray xs) = True"
| "truthy (JObject props) = True"

text \<open>\<open>v || d\<close> and \<open>Array.isArray(v) ? v : d\<close> on a property that may be undefined.\<close>

definition or_json :: "json option \<Rightarrow> json \<Rightarrow> json" where
  "or_json v d = (case v of None \<Rightarrow> d | Some x \<Rightarrow> if truthy x then x else d)"

definition arrayOr :: "json option \<Rightarrow> json list \<Rightarrow> json list" where
  "arrayOr v d = (case v of Some (JArray xs) \<Rightarrow> xs | _ \<Rightarrow> d)"

subsection \<open>Parsing the provider's answer\<close>

record SummaryResult =
  summary :: json
  keyPoints :: "json list"
  topics :: "json list"
  sentiment :: jsstring
  actionItems :: "json list"
  participants :: "json list"

definition validSentiments :: "jsstring list" where
  "validSentiments = [str ''positive'', str ''negative'', str ''neutral'', str ''mixed'']"

text \<open>\<open>validSentiments.includes(sentiment) ? sentiment : 'neutral'\<close>\<close>

definition validateSentiment :: "json option \<Rightarrow> jsstring" where
  "validateSentiment candidate =
     (case candidate of
        Some (JString s) \<Rightarrow> if s \<in> set validSentiments then s else str ''neutral''
      | _ \<Rightarrow> str ''neutral'')"

text \<open>
  \<open>content.match(/\{[\s\S]*\}/)\<close>: the text from the first \<open>{\<close> to the last \<open>}\<close>
  after it, or no match.
\<close>

definition jsonMatch :: "jsstring \<Rightarrow> jsstring option" where
  "jsonMatch content =
     (let fromBrace = dropWhile (\<lambda>c. c \<noteq> 0x7B) content;
          toBrace = rev (dropWhile (\<lambda>c. c \<noteq> 0x7D) (rev fromBrace))
      in if toBrace = [] then None else Some toBrace)"

text \<open>
  The body of the \<open>try\<close> in \<open>parseSummaryResponse\<close>: it returns a result, falls through
  (\<open>Inr None\<close>, no match), or throws. \<open>JSON.parse\<close> is the platform's: the parameter
  \<open>JSON_parse\<close>. The message of the \<open>TypeError\<close> is the engine's.
\<close>

definition parseSummaryResponse_try ::
  "(jsstring \<Rightarrow> js_error + json) \<Rightarrow> jsstring \<Rightarrow> jsstring list \<Rightarrow> js_error + SummaryResult option" where
  "parseSummaryResponse_try JSON_parse content speakers =
     (case jsonMatch content of
        None \<Rightarrow> Inr None
      | Some matched \<Rightarrow>
          (case JSON_parse matched of
             Inl error \<Rightarrow> Inl error
           | Inr JNull \<Rightarrow>
               Inl (JsError (str ''TypeError'') (str ''Cannot read properties of null''))
           | Inr parsed \<Rightarrow>
               Inr (Some
                 \<lparr>summary = or_json (property parsed (str ''summary''))
                              (JString (str ''Summary could not be generated.'')),
                  keyPoints = arrayOr (property parsed (str ''keyPoints'')) [],
                  topics = arrayOr (property parsed (str ''topics'')) [],
                  sentiment = validateSentiment (property parsed (str ''sentiment'')),
                  actionItems = arrayOr (property parsed (str ''actionItems'')) [],
                  participants = arrayOr (property parsed (str ''participants''))
                                   (map JString speakers)\<rparr>)))"

text \<open>
  \<open>parseTextResponse\<close>. \<open>sentimentMatch\<close> is
  \<open>match(/(positive|negative|neutral|mixed)/)\<close>: the word at the leftmost position
  where one of the four starts. \<open>stripBullet\<close> is \<open>replace(/^[-\<bullet>]\s*/, '')\<close>.
\<close>

fun sentimentMatch :: "jsstring \<Rightarrow> jsstring option" where
  "sentimentMatch [] = None"
| "sentimentMatch (c # cs) =
     (if startsWith (c # cs) (str ''positive'') then Some (str ''positive'')
      else if startsWith (c # cs) (str ''negative'') then Some (str ''negative'')
      else if startsWith (c # cs) (str ''neutral'') then Some (str ''neutral'')
      else if startsWith (c # cs) (str ''mixed'') then Some (str ''mixed'')
      else sentimentMatch cs)"

definition bulleted :: "jsstring \<Rightarrow> bool" where
  "bulleted s = (startsWith s (str ''-'') \<or> startsWith s [bullet])"

definition stripBullet :: "jsstring \<Rightarrow> jsstring" where
  "stripBullet s =
     (case s of
        [] \<Rightarrow> []
      | c # cs \<Rightarrow> if c = 0x2D \<or> c = bullet then dropWhile isWhiteSpace cs else s)"

record TextSections =
  ts_summary :: jsstring
  ts_keyPoints :: "jsstring list"
  ts_topics :: "jsstring list"
  ts_sentiment :: jsstring
  ts_actionItems :: "jsstring list"
  ts_currentSection :: jsstring

text \<open>One iteration of \<open>for (const line of lines)\<close>.\<close>

definition parseTextLine ::
  "(jsstring \<Rightarrow> jsstring) \<Rightarrow> TextSections \<Rightarrow> jsstring \<Rightarrow> TextSections" where
  "parseTextLine unicodeLower st line =
     (let trimmed = trim line;
          lower = toLowerCase unicodeLower trimmed
      in if str_includes lower (str ''summary'')
           then st\<lparr>ts_currentSection := str ''summary''\<rparr>
         else if str_includes lower (str ''key points'') \<or> str_includes lower (str ''takeaways'')
           then st\<lparr>ts_currentSection := str ''keypoints''\<rparr>
         else if str_includes lower (str ''topics'')
           then st\<lparr>ts_currentSection := str ''topics''\<rparr>
         else if str_includes lower (str ''sentiment'')
           then st\<lparr>ts_currentSection := str ''sentiment''\<rparr>
         else if str_includes lower (str ''action'')
           then st\<lparr>ts_currentSection := str ''actions''\<rparr>
         else if ts_currentSection st = str ''summary'' \<and> \<not> bulleted trimmed
           then st\<lparr>ts_summary :=
                     ts_summary st @ (if ts_summary st = [] then [] else str '' '') @ trimmed\<rparr>
         else if ts_currentSection st = str ''keypoints'' \<and> bulleted trimmed
           then st\<lparr>ts_keyPoints := ts_keyPoints st @ [stripBullet trimmed]\<rparr>
         else if ts_currentSection st = str ''topics'' \<and> bulleted trimmed
           then st\<lparr>ts_topics := ts_topics st @ [stripBullet trimmed]\<rparr>
         else if ts_currentSection st = str ''actions'' \<and> bulleted trimmed
           then st\<lparr>ts_actionItems := ts_actionItems st @ [stripBullet trimmed]\<rparr>
         else if ts_currentSection st = str ''sentiment''
           then (case sentimentMatch lower of
                   None \<Rightarrow> st
                 | Some word \<Rightarrow> st\<lparr>ts_sentiment := word\<rparr>)
         else st)"

definition initialSections :: TextSections where
  "initialSections =
     \<lparr>ts_summary = [], ts_keyPoints = [], ts_topics = [], ts_sentiment = str ''neutral'',
      ts_actionItems = [], ts_currentSection = []\<rparr>"

definition parseTextResponse ::
  "(jsstring \<Rightarrow> jsstring) \<Rightarrow> jsstring \<Rightarrow> jsstring list \<Rightarrow> SummaryResult" where
  "parseTextResponse unicodeLower content speakers =
     (let lines = filter (\<lambda>line. trim line \<noteq> []) (split_newline content);
          st = foldl (parseTextLine unicodeLower) initialSections lines
      in \<lparr>summary = JString (if ts_summary st = []
                               then str ''Summary could not be generated.''
                               else ts_summary st),
          keyPoints = map JString (if ts_keyPoints st = []
                                   then [str ''Key points could not be extracted.'']
                                   else ts_keyPoints st),
          topics = map JString (if ts_topics st = []
                                then [str ''Topics could not be identified.'']
                                else ts_topics st),
          sentiment = ts_sentiment st,
          actionItems = map JString (ts_actionItems st),
          participants = map JString speakers\<rparr>)"

text \<open>
  \<open>parseSummaryResponse\<close>: the \<open>catch\<close> only logs, and every path that does not return
  from the \<open>try\<close> continues with \<open>parseTextResponse\<close>.
\<close>

definition parseSummaryResponse ::
  "(jsstring \<Rightarrow> js_error + json) \<Rightarrow> (jsstring \<Rightarrow> jsstring) \<Rightarrow> jsstring \<Rightarrow> jsstring list
     \<Rightarrow> js_error + SummaryResult" where
  "parseSummaryResponse JSON_parse unicodeLower content speakers =
     (case parseSummaryResponse_try JSON_parse content speakers of
        Inr (Some result) \<Rightarrow> Inr result
      | Inr None \<Rightarrow> Inr (parseTextResponse unicodeLower content speakers)
      | Inl error \<Rightarrow> Inr (parseTextResponse unicodeLower content speakers))"
section \<open>Audio service\<close>

text \<open>
  A decoded \<open>AudioBuffer\<close>: its frame count, channel count and sample rate (whole
  numbers), and the samples of each channel as \<open>getChannelData\<close> returns them, finite
  32-bit floats, whose products with \<open>0x8000\<close> and \<open>0x7FFF\<close> are exact in binary64. In
  a buffer of the platform every channel holds \<open>length\<close> samples and there are
  \<open>numberOfChannels\<close> channels (\<open>wellFormed\<close>).
\<close>

type_synonym byte = "8 word"

record AudioBuffer =
  ab_length :: nat
  ab_numberOfChannels :: nat
  ab_sampleRate :: nat
  ab_channelData :: "number list list"

definition wellFormed :: "AudioBuffer \<Rightarrow> bool" where
  "wellFormed buffer =
     (length (ab_channelData buffer) = ab_numberOfChannels buffer
      \<and> list_all (\<lambda>samples. length samples = ab_length buffer) (ab_channelData buffer))"

text \<open>
  The setters of a \<open>DataView\<close> over a byte array, all little-endian as the source calls
  them. An integer argument is stored modulo the width of the field; \<open>setInt16\<close> first
  truncates its number towards zero. Every offset \<open>audioBufferToWav\<close> writes lies inside
  the array it allocates, so no setter raises a \<open>RangeError\<close>.
\<close>

definition setUint8 :: "byte list \<Rightarrow> nat \<Rightarrow> nat \<Rightarrow> byte list" where
  "setUint8 view offset v = view[offset := of_nat v]"

definition setUint16 :: "byte list \<Rightarrow> nat \<Rightarrow> nat \<Rightarrow> byte list" where
  "setUint16 view offset v =
     view[offset := of_nat v, offset + 1 := of_nat (v div 256)]"

definition setUint32 :: "byte list \<Rightarrow> nat \<Rightarrow> nat \<Rightarrow> byte list" where
  "setUint32 view offset v =
     view[offset := of_nat v, offset + 1 := of_nat (v div 256),
          offset + 2 := of_nat (v div 65536), offset + 3 := of_nat (v div 16777216)]"

definition truncateNumber :: "number \<Rightarrow> int" where
  "truncateNumber x = (if 0 \<le> x then \<lfloor>x\<rfloor> else \<lceil>x\<rceil>)"

definition setInt16 :: "byte list \<Rightarrow> nat \<Rightarrow> number \<Rightarrow> byte list" where
  "setInt16 view offset x =
     view[offset := of_int (truncateNumber x), offset + 1 := of_int (truncateNumber x div 256)]"

text \<open>\<open>writeString\<close>: one \<open>setUint8\<close> per code unit, at \<open>offset\<close>, \<open>offset + 1\<close>, ...\<close>

fun writeString :: "byte list \<Rightarrow> nat \<Rightarrow> jsstring \<Rightarrow> byte list" where
  "writeString view offset [] = view"
| "writeString view offset (c # cs) = writeString (setUint8 view offset (unat c)) (offset + 1) cs"

text \<open>
  The value handed to \<open>setInt16\<close> for frame \<open>i\<close> of \<open>channel\<close>:
  \<open>Math.max(-1, Math.min(1, sample))\<close>, then times \<open>0x8000\<close> when negative and
  \<open>0x7FFF\<close> otherwise. A read outside the channel's samples gives \<open>undefined\<close>, which
  becomes \<open>NaN\<close> and is stored as 0.
\<close>

definition scaledSample :: "(rat \<Rightarrow> number) \<Rightarrow> AudioBuffer \<Rightarrow> nat \<Rightarrow> nat \<Rightarrow> number" where
  "scaledSample rnd buffer i channel =
     (if channel < length (ab_channelData buffer) \<and> i < length (ab_channelData buffer ! channel)
      then (let sample = max (- 1) (min 1 (ab_channelData buffer ! channel ! i))
            in if sample < 0 then rnd (sample * 32768) else rnd (sample * 32767))
      else 0)"

text \<open>The two nested \<open>for\<close> statements thread the array and the running \<open>offset\<close>.\<close>

definition writeSample ::
  "(rat \<Rightarrow> number) \<Rightarrow> AudioBuffer \<Rightarrow> nat \<Rightarrow> byte list \<times> nat \<Rightarrow> nat \<Rightarrow> byte list \<times> nat" where
  "writeSample rnd buffer i = (\<lambda>(view, offset) channel.
     (setInt16 view offset (scaledSample rnd buffer i channel), offset + 2))"

definition writeFrame ::
  "(rat \<Rightarrow> number) \<Rightarrow> AudioBuffer \<Rightarrow> byte list \<times> nat \<Rightarrow> nat \<Rightarrow> byte list \<times> nat" where
  "writeFrame rnd buffer st i =
     foldl (writeSample rnd buffer i) st [0..<ab_numberOfChannels buffer]"

definition wavHeader :: "AudioBuffer \<Rightarrow> byte list \<Rightarrow> byte list" where
  "wavHeader buffer view0 =
     (let length = ab_length buffer;
          numberOfChannels = ab_numberOfChannels buffer;
          sampleRate = ab_sampleRate buffer;
          view = writeString view0 0 (str ''RIFF'');
          view = setUint32 view 4 (36 + length * numberOfChannels * 2);
          view = writeString view 8 (str ''WAVE'');
          view = writeString view 12 (str ''fmt '');
          view = setUint32 view 16 16;
          view = setUint16 view 20 1;
          view = setUint16 view 22 numberOfChannels;
          view = setUint32 view 24 sampleRate;
          view = setUint32 view 28 (sampleRate * numberOfChannels * 2);
          view = setUint16 view 32 (numberOfChannels * 2);
          view = setUint16 view 34 16;
          view = writeString view 36 (str ''data'')
      in setUint32 view 40 (length * numberOfChannels * 2))"

definition audioBufferToWav :: "(rat \<Rightarrow> number) \<Rightarrow> AudioBuffer \<Rightarrow> byte list" where
  "audioBufferToWav rnd buffer =
     (let arrayBuffer = replicate (44 + ab_length buffer * ab_numberOfChannels buffer * 2) 0;
          view = wavHeader buffer arrayBuffer
      in fst (foldl (writeFrame rnd buffer) (view, 44) [0..<ab_length buffer]))"

text \<open>Reading a little-endian field back from the bytes.\<close>

definition getUint16 :: "byte list \<Rightarrow> nat \<Rightarrow> nat" where
  "getUint16 bytes offset = unat (bytes ! offset) + 256 * unat (bytes ! (offset + 1))"

definition getUint32 :: "byte list \<Rightarrow> nat \<Rightarrow> nat" where
  "getUint32 bytes offset =
     unat (bytes ! offset) + 256 * unat (bytes ! (offset + 1))
     + 65536 * unat (bytes ! (offset + 2)) + 16777216 * unat (bytes ! (offset + 3))"

text \<open>An example: a mono recording at 16000 Hz with 45000 frames, 90000 data bytes.\<close>

definition monoBuffer :: AudioBuffer where
  "monoBuffer =
     \<lparr>ab_length = 45000, ab_numberOfChannels = 1, ab_sampleRate = 16000,
      ab_channelData = [replicate 45000 (1 / 2)]\<rparr>"

section \<open>The platform around the services\<close>

text \<open>
  A request as \<open>fetch\<close> receives it: the URL and the method, and, when the call goes
  through the forwarding proxy, the URL and method it wraps. Headers and payload play no
  part in the control flow and are left out.
\<close>

record request =
  req_url :: jsstring
  req_method :: jsstring
  req_forwarded :: "(jsstring \<times> jsstring) option"

text \<open>
  The JSON body of a response, as the properties the services read from it. The
  properties of an error (\<open>error?.message\<close>), of a space (\<open>data\<close>,
  \<open>includes?.users?.[0]?.username\<close>) and of an audio stream (\<open>audio_url\<close>) have the
  types the source gives them, \<open>None\<close> when absent.

  The answer to a transcription request and the content of a completion are used
  without any check of their shape, and a shape the code does not expect makes it
  throw. They are kept as the shapes the code tells apart:

  \<^item> the body is \<open>null\<close>, or it has the properties \<open>text\<close>, \<open>segments\<close> and \<open>language\<close>
    (a body that is not an object has none of them);
  \<^item> \<open>segments\<close> is absent or falsy, or an array, or another truthy value, which has no
    \<open>map\<close>;
  \<^item> an element of the array is \<open>null\<close>, or it has the properties \<open>start\<close>, \<open>end\<close> and
    \<open>text\<close>;
  \<^item> the \<open>text\<close> of an element is absent or falsy, or a string, or another truthy value
    that has no \<open>includes\<close>: a number, \<open>true\<close> or an object;
  \<^item> \<open>choices?.[0]?.message?.content\<close> is \<open>undefined\<close> (\<open>None\<close>) or any JSON value, unless
    the body is \<open>null\<close>.

  The lookups of a space and of its audio stream test the body before they read it
  (\<open>data && data.data\<close>), so that a \<open>null\<close> body is to them a body without properties.

  Outside these shapes are a \<open>text\<close> that is an array and a \<open>start\<close> or \<open>end\<close> that is not
  a number: \<open>text\<close> and \<open>language\<close> of the body, \<open>start\<close> and \<open>end\<close> have the types of the
  source's interfaces.
\<close>

datatype SegmentText = NoText | StringText jsstring | OtherText

datatype SegmentJson = NullSegment | SegmentObject "number option" "number option" SegmentText

datatype SegmentsJson = NoSegments | SegmentArray "SegmentJson list" | OtherSegments

datatype TranscriptionJson =
    NullTranscription
  | TranscriptionObject "jsstring option" SegmentsJson "jsstring option"

datatype CompletionJson = NullCompletion | CompletionContent "json option"

record SpaceData =
  sp_id :: "jsstring option"
  sp_title :: "jsstring option"
  sp_participant_count :: "number option"
  sp_state :: "jsstring option"
  sp_scheduled_start :: "jsstring option"
  sp_started_at :: "jsstring option"
  sp_ended_at :: "jsstring option"

record ResponseBody =
  b_error_message :: "jsstring option"
  b_transcription :: TranscriptionJson
  b_content :: CompletionJson
  b_data :: "SpaceData option"
  b_host_username :: "jsstring option"
  b_audio_url :: "jsstring option"

record Blob =
  blob_bytes :: "byte list"
  blob_type :: jsstring

text \<open>
  A response: \<open>ok\<close>, \<open>statusText\<close>, and what \<open>json()\<close> and \<open>blob()\<close> resolve to or
  reject with.
\<close>

record response =
  resp_ok :: bool
  resp_statusText :: jsstring
  resp_json :: "js_error + ResponseBody"
  resp_blob :: "js_error + Blob"

text \<open>
  The environment of a run: the four configuration variables (\<open>None\<close> when unset), the
  network, the audio decoder, \<open>JSON.parse\<close>, the Unicode case table and the rounding of
  the number format. The network answers a request from its current state \<open>'w\<close> and
  moves to a new one; it may reject.
\<close>

record 'w environment =
  VITE_OPENAI_API_KEY :: "jsstring option"
  VITE_TWITTER_BEARER_TOKEN :: "jsstring option"
  VITE_PROXY_SERVER_URL :: "jsstring option"
  VITE_PROXY_SERVER_ACCESS_TOKEN :: "jsstring option"
  network :: "'w \<Rightarrow> request \<Rightarrow> (js_error + response) \<times> 'w"
  decodeAudioData :: "Blob \<Rightarrow> js_error + AudioBuffer"
  jsonParse :: "jsstring \<Rightarrow> js_error + json"
  caseTable :: "jsstring \<Rightarrow> jsstring"
  rounding :: "rat \<Rightarrow> number"

text \<open>
  What a run has done so far: the state of the network and, in order, every request
  sent and every decoding started.
\<close>

datatype event = Fetch request | Decode Blob

record 'w runtime =
  world :: 'w
  events :: "event list"

definition fetch ::
  "'w environment \<Rightarrow> request \<Rightarrow> 'w runtime \<Rightarrow> (js_error + response) \<times> 'w runtime" where
  "fetch env req s =
     (case network env (world s) req of
        (outcome, w) \<Rightarrow> (outcome, \<lparr>world = w, events = events s @ [Fetch req]\<rparr>))"

text \<open>The fields of the three service objects, read from the configuration.\<close>

definition openaiApiKey :: "'w environment \<Rightarrow> jsstring option" where
  "openaiApiKey env = VITE_OPENAI_API_KEY env"

definition twitterBearerToken :: "'w environment \<Rightarrow> jsstring option" where
  "twitterBearerToken env = VITE_TWITTER_BEARER_TOKEN env"

definition proxyUrl :: "'w environment \<Rightarrow> jsstring" where
  "proxyUrl env = or_string (VITE_PROXY_SERVER_URL env) (str ''undefined'')"

definition proxyToken :: "'w environment \<Rightarrow> jsstring" where
  "proxyToken env = or_string (VITE_PROXY_SERVER_ACCESS_TOKEN env) (str ''undefined'')"

text \<open>Truthiness of an optional string: set and not empty.\<close>

definition present :: "jsstring option \<Rightarrow> bool" where
  "present v = (case v of None \<Rightarrow> False | Some s \<Rightarrow> s \<noteq> [])"

text \<open>\<open>`${error}`\<close>: the name and the message of an \<open>Error\<close>, as \<open>toString\<close> joins them.\<close>

definition errorToString :: "js_error \<Rightarrow> jsstring" where
  "errorToString error =
     (case error of
        JsError name message \<Rightarrow>
          if name = [] then message
          else if message = [] then name
          else name @ str '': '' @ message
      | NonError rendering \<Rightarrow> rendering)"

text \<open>
  \<open>makeApiRequest\<close> of the transcription and the summary service: through the proxy
  when its URL is configured, directly otherwise; a rejection of \<open>fetch\<close> propagates.
\<close>

definition forwardedRequest :: "'w environment \<Rightarrow> jsstring \<Rightarrow> jsstring \<Rightarrow> request" where
  "forwardedRequest env url method =
     \<lparr>req_url = proxyUrl env, req_method = str ''POST'', req_forwarded = Some (url, method)\<rparr>"

definition directRequest :: "jsstring \<Rightarrow> jsstring \<Rightarrow> request" where
  "directRequest url method = \<lparr>req_url = url, req_method = method, req_forwarded = None\<rparr>"

definition makeApiRequest ::
  "'w environment \<Rightarrow> jsstring \<Rightarrow> jsstring \<Rightarrow> 'w runtime \<Rightarrow> (js_error + response) \<times> 'w runtime" where
  "makeApiRequest env url method s =
     (if proxyUrl env \<noteq> str ''undefined''
      then fetch env (forwardedRequest env url method) s
      else fetch env (directRequest url method) s)"

section \<open>The service operations that call the provider\<close>

definition notConfigured :: js_error where
  "notConfigured =
     new_Error (str ''OpenAI API key not configured. Please add VITE_OPENAI_API_KEY to your .env file.'')"

definition emptyBody :: ResponseBody where
  "emptyBody =
     \<lparr>b_error_message = None,
      b_transcription = TranscriptionObject None NoSegments None,
      b_content = CompletionContent None,
      b_data = None, b_host_username = None, b_audio_url = None\<rparr>"

text \<open>\<open>await response.json().catch(() => ({}))\<close>\<close>

definition jsonOrEmpty :: "response \<Rightarrow> ResponseBody" where
  "jsonOrEmpty response = (case resp_json response of Inl error \<Rightarrow> emptyBody | Inr data \<Rightarrow> data)"

text \<open>
  The \<open>TypeError\<close> of reading a property of \<open>null\<close> or calling what is not a function.
  The messages are the engine's.
\<close>

definition typeError :: "jsstring \<Rightarrow> js_error" where
  "typeError message = JsError (str ''TypeError'') message"

text \<open>
  When the status is not \<open>ok\<close>, both operations read \<open>errorData.error?.message\<close>,
  which throws on a body that is \<open>null\<close>.

  What \<open>transcribeAudio\<close> does with the body it has read when the status is \<open>ok\<close>:
  \<open>data.segments\<close> throws on a \<open>null\<close> body. \<open>processSegments(data.segments || [])\<close>
  throws when \<open>segments\<close> has no \<open>map\<close>, and at the first element that is \<open>null\<close>, where
  it reads \<open>segment.start\<close>; it keeps every \<open>text\<close> that is truthy as it is.
  \<open>identifySpeakers\<close> does not throw. \<open>calculateAverageConfidence\<close> then throws at the
  first segment whose text has no \<open>includes\<close>. When nothing throws, every element has the
  properties of a \<open>ProviderSegment\<close> (\<open>typedSegment\<close>) and the result is
  \<open>transcriptionResult\<close>.
\<close>

fun typedSegment :: "SegmentJson \<Rightarrow> ProviderSegment option" where
  "typedSegment NullSegment = None"
| "typedSegment (SegmentObject startTime endTime NoText) =
     Some \<lparr>p_start = startTime, p_end = endTime, p_text = None\<rparr>"
| "typedSegment (SegmentObject startTime endTime (StringText content)) =
     Some \<lparr>p_start = startTime, p_end = endTime, p_text = Some content\<rparr>"
| "typedSegment (SegmentObject startTime endTime OtherText) = None"

definition readTranscription ::
  "(rat \<Rightarrow> number) \<Rightarrow> TranscriptionJson \<Rightarrow> js_error + TranscriptionResult" where
  "readTranscription rnd data =
     (case data of
        NullTranscription \<Rightarrow> Inl (typeError (str ''Cannot read properties of null''))
      | TranscriptionObject content segments language \<Rightarrow>
          (case segments of
             NoSegments \<Rightarrow>
               Inr (transcriptionResult rnd
                      \<lparr>d_text = content, d_segments = None, d_language = language\<rparr>)
           | OtherSegments \<Rightarrow> Inl (typeError (str ''segments.map is not a function''))
           | SegmentArray elements \<Rightarrow>
               if NullSegment \<in> set elements
               then Inl (typeError (str ''Cannot read properties of null''))
               else if list_ex (\<lambda>element. typedSegment element = None) elements
               then Inl (typeError (str ''segment.text.includes is not a function''))
               else Inr (transcriptionResult rnd
                           \<lparr>d_text = content,
                            d_segments = Some (List.map_filter typedSegment elements),
                            d_language = language\<rparr>)))"

text \<open>\<open>transcribeAudio\<close>: the body of its \<open>try\<close>, then the operation with its \<open>catch\<close>.\<close>

definition transcribeAudio_try ::
  "'w environment \<Rightarrow> Blob \<Rightarrow> jsstring \<Rightarrow> 'w runtime \<Rightarrow> (js_error + TranscriptionResult) \<times> 'w runtime" where
  "transcribeAudio_try env audioBlob filename s =
     (case makeApiRequest env (str ''https://api.openai.com/v1/audio/transcriptions'') (str ''POST'') s of
        (Inl error, s') \<Rightarrow> (Inl error, s')
      | (Inr response, s') \<Rightarrow>
          if \<not> resp_ok response
          then (if b_transcription (jsonOrEmpty response) = NullTranscription
                then (Inl (typeError (str ''Cannot read properties of null'')), s')
                else (Inl (new_Error (str ''Transcription failed: ''
                             @ or_string (b_error_message (jsonOrEmpty response))
                                 (resp_statusText response))), s'))
          else (case resp_json response of
                  Inl error \<Rightarrow> (Inl error, s')
                | Inr data \<Rightarrow> (readTranscription (rounding env) (b_transcription data), s')))"

definition transcribeAudio ::
  "'w environment \<Rightarrow> Blob \<Rightarrow> jsstring \<Rightarrow> 'w runtime \<Rightarrow> (js_error + TranscriptionResult) \<times> 'w runtime" where
  "transcribeAudio env audioBlob filename s =
     (if \<not> present (openaiApiKey env) then (Inl notConfigured, s)
      else (case transcribeAudio_try env audioBlob filename s of
              (Inl error, s') \<Rightarrow>
                (Inl (new_Error (str ''Failed to transcribe audio: '' @ messageOf error)), s')
            | (Inr result, s') \<Rightarrow> (Inr result, s')))"

text \<open>
  \<open>generateSummary\<close>, in the same two parts. \<open>data.choices\<close> throws on a \<open>null\<close> body. A
  content that is truthy and not a string has no \<open>match\<close> and no \<open>split\<close>:
  \<open>parseSummaryResponse\<close> catches the first \<open>TypeError\<close>, inside its \<open>try\<close>, and lets
  through the second, which \<open>parseTextResponse\<close> throws.
\<close>

definition generateSummary_try ::
  "'w environment \<Rightarrow> jsstring \<Rightarrow> jsstring list \<Rightarrow> 'w runtime \<Rightarrow> (js_error + SummaryResult) \<times> 'w runtime" where
  "generateSummary_try env transcript speakers s =
     (case makeApiRequest env (str ''https://api.openai.com/v1/chat/completions'') (str ''POST'') s of
        (Inl error, s') \<Rightarrow> (Inl error, s')
      | (Inr response, s') \<Rightarrow>
          if \<not> resp_ok response
          then (if b_content (jsonOrEmpty response) = NullCompletion
                then (Inl (typeError (str ''Cannot read properties of null'')), s')
                else (Inl (new_Error (str ''Summary generation failed: ''
                             @ or_string (b_error_message (jsonOrEmpty response))
                                 (resp_statusText response))), s'))
          else (case resp_json response of
                  Inl error \<Rightarrow> (Inl error, s')
                | Inr data \<Rightarrow>
                    (case b_content data of
                       NullCompletion \<Rightarrow>
                         (Inl (typeError (str ''Cannot read properties of null'')), s')
                     | CompletionContent None \<Rightarrow>
                         (Inl (new_Error (str ''No summary content received from API'')), s')
                     | CompletionContent (Some content) \<Rightarrow>
                         if \<not> truthy content
                         then (Inl (new_Error (str ''No summary content received from API'')), s')
                         else (case content of
                                 JString answer \<Rightarrow>
                                   (parseSummaryResponse (jsonParse env) (caseTable env)
                                      answer speakers, s')
                               | _ \<Rightarrow>
                                   (Inl (typeError (str ''content.split is not a function'')), s')))))"

definition generateSummary ::
  "'w environment \<Rightarrow> jsstring \<Rightarrow> jsstring list \<Rightarrow> 'w runtime \<Rightarrow> (js_error + SummaryResult) \<times> 'w runtime" where
  "generateSummary env transcript speakers s =
     (if \<not> present (openaiApiKey env) then (Inl notConfigured, s)
      else (case generateSummary_try env transcript speakers s of
              (Inl error, s') \<Rightarrow>
                (Inl (new_Error (str ''Failed to generate summary: '' @ messageOf error)), s')
            | (Inr result, s') \<Rightarrow> (Inr result, s')))"

text \<open>
  The audio service. \<open>extractAudioFromUrl\<close> fetches the URL directly and wraps every
  failure. \<open>convertToWav\<close> decodes and encodes; \<open>decodeAudioData\<close> of the environment
  stands for creating the audio context, reading the blob and decoding it, any of which
  may reject.
\<close>

definition extractAudioFromUrl ::
  "'w environment \<Rightarrow> jsstring \<Rightarrow> 'w runtime \<Rightarrow> (js_error + Blob) \<times> 'w runtime" where
  "extractAudioFromUrl env url s =
     (case fetch env (directRequest url (str ''GET'')) s of
        (Inl error, s') \<Rightarrow>
          (Inl (new_Error (str ''Failed to extract audio from URL: '' @ errorToString error)), s')
      | (Inr response, s') \<Rightarrow>
          if \<not> resp_ok response
          then (Inl (new_Error (str ''Failed to extract audio from URL: ''
                      @ errorToString (new_Error (str ''Failed to fetch audio: ''
                                                   @ resp_statusText response)))), s')
          else (case resp_blob response of
                  Inl error \<Rightarrow>
                    (Inl (new_Error (str ''Failed to extract audio from URL: ''
                                      @ errorToString error)), s')
                | Inr blob \<Rightarrow> (Inr blob, s')))"

definition convertToWav ::
  "'w environment \<Rightarrow> Blob \<Rightarrow> 'w runtime \<Rightarrow> (js_error + Blob) \<times> 'w runtime" where
  "convertToWav env audioBlob s =
     (let s' = s\<lparr>events := events s @ [Decode audioBlob]\<rparr>
      in case decodeAudioData env audioBlob of
           Inl error \<Rightarrow> (Inl error, s')
         | Inr audioBuffer \<Rightarrow>
             (Inr \<lparr>blob_bytes = audioBufferToWav (rounding env) audioBuffer,
                   blob_type = str ''audio/wav''\<rparr>, s'))"

text \<open>
  The ways a call to the provider comes back without a usable answer. The request
  fails: \<open>fetch\<close> rejects, the status is not \<open>ok\<close>, or the body cannot be read as
  JSON. The answer has no content: \<open>content\<close> is absent or falsy. Or the body is read
  and has a shape the code does not expect: for a transcription a \<open>null\<close> body, a
  truthy \<open>segments\<close> that is not an array, a \<open>null\<close> segment, or a segment whose text is
  truthy and not a string (\<open>otherText\<close>); for a completion a \<open>null\<close> body, or a content
  that is truthy and not a string.
\<close>

definition requestFailed :: "js_error + response \<Rightarrow> bool" where
  "requestFailed outcome =
     (case outcome of
        Inl error \<Rightarrow> True
      | Inr response \<Rightarrow>
          \<not> resp_ok response \<or> (case resp_json response of Inl error \<Rightarrow> True | Inr data \<Rightarrow> False))"

definition noContent :: "js_error + response \<Rightarrow> bool" where
  "noContent outcome =
     (case outcome of
        Inl error \<Rightarrow> False
      | Inr response \<Rightarrow>
          (case resp_json response of
             Inl error \<Rightarrow> False
           | Inr data \<Rightarrow>
               (case b_content data of
                  NullCompletion \<Rightarrow> False
                | CompletionContent None \<Rightarrow> True
                | CompletionContent (Some content) \<Rightarrow> \<not> truthy content)))"

fun otherText :: "SegmentJson \<Rightarrow> bool" where
  "otherText (SegmentObject startTime endTime OtherText) = True"
| "otherText element = False"

fun unexpectedSegments :: "SegmentsJson \<Rightarrow> bool" where
  "unexpectedSegments NoSegments = False"
| "unexpectedSegments OtherSegments = True"
| "unexpectedSegments (SegmentArray elements) =
     list_ex (\<lambda>element. element = NullSegment \<or> otherText element) elements"

fun unexpectedTranscriptionJson :: "TranscriptionJson \<Rightarrow> bool" where
  "unexpectedTranscriptionJson NullTranscription = True"
| "unexpectedTranscriptionJson (TranscriptionObject content segments language) =
     unexpectedSegments segments"

fun unexpectedCompletionJson :: "CompletionJson \<Rightarrow> bool" where
  "unexpectedCompletionJson NullCompletion = True"
| "unexpectedCompletionJson (CompletionContent None) = False"
| "unexpectedCompletionJson (CompletionContent (Some (JString answer))) = False"
| "unexpectedCompletionJson (CompletionContent (Some content)) = truthy content"

definition unexpectedTranscription :: "js_error + response \<Rightarrow> bool" where
  "unexpectedTranscription outcome =
     (case outcome of
        Inl error \<Rightarrow> False
      | Inr response \<Rightarrow>
          (case resp_json response of
             Inl error \<Rightarrow> False
           | Inr data \<Rightarrow> unexpectedTranscriptionJson (b_transcription data)))"

definition unexpectedContent :: "js_error + response \<Rightarrow> bool" where
  "unexpectedContent outcome =
     (case outcome of
        Inl error \<Rightarrow> False
      | Inr response \<Rightarrow>
          (case resp_json response of
             Inl error \<Rightarrow> False
           | Inr data \<Rightarrow> unexpectedCompletionJson (b_content data)))"

section \<open>X Space service\<close>

record XSpaceMetadata =
  md_id :: jsstring
  md_title :: jsstring
  md_hostUsername :: jsstring
  md_participantCount :: number
  md_isLive :: bool
  md_scheduledStart :: "jsstring option"
  md_actualStart :: "jsstring option"
  md_estimatedEnd :: "jsstring option"
  md_state :: jsstring

record XSpaceProcessingResult =
  pr_metadata :: XSpaceMetadata
  pr_transcription :: TranscriptionResult
  pr_summary :: SummaryResult
  pr_audioUrl :: "jsstring option"

text \<open>
  The patterns of \<open>extractSpaceId\<close> all have the shape \<open>literal([class]+)\<close>:
  \<open>captureAfter literal class url\<close> is the capture group of the leftmost match, the
  longest run of \<open>class\<close> characters after the leftmost \<open>literal\<close> that is followed by
  at least one.
\<close>

definition isDigit :: "16 word \<Rightarrow> bool" where
  "isDigit c = (0x30 \<le> c \<and> c \<le> 0x39)"

definition isAlphaNumeric :: "16 word \<Rightarrow> bool" where
  "isAlphaNumeric c = ((0x61 \<le> c \<and> c \<le> 0x7A) \<or> (0x41 \<le> c \<and> c \<le> 0x5A) \<or> isDigit c)"

fun captureAfter :: "jsstring \<Rightarrow> (16 word \<Rightarrow> bool) \<Rightarrow> jsstring \<Rightarrow> jsstring option" where
  "captureAfter literal cls [] = None"
| "captureAfter literal cls (c # cs) =
     (if startsWith (c # cs) literal \<and> takeWhile cls (drop (length literal) (c # cs)) \<noteq> []
      then Some (takeWhile cls (drop (length literal) (c # cs)))
      else captureAfter literal cls cs)"

fun firstMatch :: "(jsstring \<times> (16 word \<Rightarrow> bool)) list \<Rightarrow> jsstring \<Rightarrow> jsstring option" where
  "firstMatch [] url = None"
| "firstMatch ((literal, cls) # patterns) url =
     (case captureAfter literal cls url of
        Some captured \<Rightarrow> Some captured
      | None \<Rightarrow> firstMatch patterns url)"

definition patterns :: "(jsstring \<times> (16 word \<Rightarrow> bool)) list" where
  "patterns =
     [(str ''/spaces/'', isAlphaNumeric),
      (str ''spaces.twitter.com/'', isAlphaNumeric),
      (str ''/status/'', isDigit),
      (str ''/i/spaces/'', isAlphaNumeric)]"

definition extractSpaceId :: "jsstring \<Rightarrow> js_error + jsstring" where
  "extractSpaceId url =
     (if url = [] then Inl (new_Error (str ''Invalid URL provided''))
      else (case firstMatch patterns url of
              Some captured \<Rightarrow> Inr captured
            | None \<Rightarrow> Inl (new_Error (str ''Invalid X Space URL format''))))"

text \<open>
  \<open>makeApiRequest\<close> of this service: the proxy needs both its URL and its token, and a
  rejection of \<open>fetch\<close> is caught and gives \<open>null\<close> (\<open>None\<close>).
\<close>

definition makeApiRequest_orNull ::
  "'w environment \<Rightarrow> jsstring \<Rightarrow> jsstring \<Rightarrow> 'w runtime \<Rightarrow> response option \<times> 'w runtime" where
  "makeApiRequest_orNull env url method s =
     (case (if proxyUrl env \<noteq> str ''undefined'' \<and> proxyToken env \<noteq> str ''undefined''
            then fetch env (forwardedRequest env url method) s
            else fetch env (directRequest url method) s) of
        (Inl error, s') \<Rightarrow> (None, s')
      | (Inr response, s') \<Rightarrow> (Some response, s'))"

text \<open>
  \<open>this.twitterBearerToken && this.twitterBearerToken !== 'undefined' &&
  this.twitterBearerToken.length > 10\<close>
\<close>

definition bearerTokenUsable :: "'w environment \<Rightarrow> bool" where
  "bearerTokenUsable env =
     (case twitterBearerToken env of
        None \<Rightarrow> False
      | Some token \<Rightarrow> token \<noteq> [] \<and> token \<noteq> str ''undefined'' \<and> 10 < length token)"

definition basicMetadata :: "jsstring \<Rightarrow> XSpaceMetadata" where
  "basicMetadata spaceId =
     \<lparr>md_id = spaceId, md_title = str ''X Space Recording'', md_hostUsername = str ''Unknown'',
      md_participantCount = 0, md_isLive = False, md_scheduledStart = None,
      md_actualStart = None, md_estimatedEnd = None, md_state = str ''ended''\<rparr>"

definition metadataOf :: "jsstring \<Rightarrow> ResponseBody \<Rightarrow> SpaceData \<Rightarrow> XSpaceMetadata" where
  "metadataOf spaceId data space =
     \<lparr>md_id = or_string (sp_id space) spaceId,
      md_title = or_string (sp_title space) (str ''X Space Recording''),
      md_hostUsername = or_string (b_host_username data) (str ''Unknown''),
      md_participantCount = or_number (sp_participant_count space) 0,
      md_isLive = (sp_state space = Some (str ''live'')),
      md_scheduledStart = sp_scheduled_start space,
      md_actualStart = sp_started_at space,
      md_estimatedEnd = sp_ended_at space,
      md_state = or_string (sp_state space) (str ''ended'')\<rparr>"

definition spaceApiUrl :: "jsstring \<Rightarrow> jsstring" where
  "spaceApiUrl spaceId =
     str ''https://api.twitter.com/2/spaces/'' @ spaceId
     @ str ''?expansions=host_ids&user.fields=username,name&space.fields=participant_count,speaker_ids,is_ticketed,state,scheduled_start,started_at,ended_at,topic_ids,title''"

text \<open>
  \<open>extractSpaceMetadata\<close>: the body of the outer \<open>try\<close> (the inner \<open>try\<close> around the
  lookup falls through to \<open>basicMetadata\<close>), then the operation with the outer \<open>catch\<close>.
\<close>

definition extractSpaceMetadata_try ::
  "'w environment \<Rightarrow> jsstring \<Rightarrow> 'w runtime \<Rightarrow> (js_error + XSpaceMetadata) \<times> 'w runtime" where
  "extractSpaceMetadata_try env spaceUrl s =
     (case extractSpaceId spaceUrl of
        Inl error \<Rightarrow> (Inl error, s)
      | Inr spaceId \<Rightarrow>
          if spaceId = [] then (Inl (new_Error (str ''Invalid X Space URL format'')), s)
          else if bearerTokenUsable env
          then (case makeApiRequest_orNull env (spaceApiUrl spaceId) (str ''GET'') s of
                  (None, s') \<Rightarrow> (Inr (basicMetadata spaceId), s')
                | (Some response, s') \<Rightarrow>
                    if resp_ok response
                    then (case resp_json response of
                            Inl apiError \<Rightarrow> (Inr (basicMetadata spaceId), s')
                          | Inr data \<Rightarrow>
                              (case b_data data of
                                 None \<Rightarrow> (Inr (basicMetadata spaceId), s')
                               | Some space \<Rightarrow> (Inr (metadataOf spaceId data space), s')))
                    else (Inr (basicMetadata spaceId), s'))
          else (Inr (basicMetadata spaceId), s))"

definition extractSpaceMetadata ::
  "'w environment \<Rightarrow> jsstring \<Rightarrow> 'w runtime \<Rightarrow> (js_error + XSpaceMetadata) \<times> 'w runtime" where
  "extractSpaceMetadata env spaceUrl s =
     (case extractSpaceMetadata_try env spaceUrl s of
        (Inl error, s') \<Rightarrow> (Inr (basicMetadata (str ''unknown'')), s')
      | (Inr metadata, s') \<Rightarrow> (Inr metadata, s'))"

text \<open>
  \<open>extractAudioUrl\<close>: a \<open>HEAD\<close> request to each candidate in turn, then the media
  endpoint when a bearer token is usable, then the error.
\<close>

definition possibleUrls :: "jsstring \<Rightarrow> jsstring list" where
  "possibleUrls spaceId =
     [str ''https://prod-fastly-us-west-1.video.pscp.tv/Transcoding/v1/hls/'' @ spaceId
        @ str ''/transcode/us-west-1/periscope-replay-direct-prod-us-west-1-public/audio-space/master_playlist.m3u8'',
      str ''https://prod-fastly-us-east-1.video.pscp.tv/Transcoding/v1/hls/'' @ spaceId
        @ str ''/transcode/us-east-1/periscope-replay-direct-prod-us-east-1-public/audio-space/master_playlist.m3u8'',
      str ''https://prod-fastly-eu-west-1.video.pscp.tv/Transcoding/v1/hls/'' @ spaceId
        @ str ''/transcode/eu-west-1/periscope-replay-direct-prod-eu-west-1-public/audio-space/master_playlist.m3u8'']"

fun firstReachable ::
  "'w environment \<Rightarrow> jsstring list \<Rightarrow> 'w runtime \<Rightarrow> jsstring option \<times> 'w runtime" where
  "firstReachable env [] s = (None, s)"
| "firstReachable env (url # urls) s =
     (case makeApiRequest_orNull env url (str ''HEAD'') s of
        (None, s') \<Rightarrow> firstReachable env urls s'
      | (Some response, s') \<Rightarrow>
          if resp_ok response then (Some url, s') else firstReachable env urls s')"

definition noStreams :: js_error where
  "noStreams = new_Error (str ''No accessible audio streams found for this X Space'')"

definition audioStreamLookup ::
  "'w environment \<Rightarrow> jsstring \<Rightarrow> 'w runtime \<Rightarrow> (js_error + jsstring) \<times> 'w runtime" where
  "audioStreamLookup env spaceId s =
     (if bearerTokenUsable env
      then (case makeApiRequest_orNull env
                   (str ''https://api.twitter.com/2/spaces/'' @ spaceId @ str ''/audio_stream'')
                   (str ''GET'') s of
              (None, s') \<Rightarrow> (Inl noStreams, s')
            | (Some response, s') \<Rightarrow>
                if resp_ok response
                then (case resp_json response of
                        Inl error \<Rightarrow> (Inl noStreams, s')
                      | Inr data \<Rightarrow>
                          (case b_audio_url data of
                             None \<Rightarrow> (Inl noStreams, s')
                           | Some audio_url \<Rightarrow>
                               if audio_url = [] then (Inl noStreams, s')
                               else (Inr audio_url, s')))
                else (Inl noStreams, s'))
      else (Inl noStreams, s))"

definition extractAudioUrl ::
  "'w environment \<Rightarrow> jsstring \<Rightarrow> 'w runtime \<Rightarrow> (js_error + jsstring) \<times> 'w runtime" where
  "extractAudioUrl env spaceUrl s =
     (case extractSpaceId spaceUrl of
        Inl error \<Rightarrow> (Inl error, s)
      | Inr spaceId \<Rightarrow>
          (case firstReachable env (possibleUrls spaceId) s of
             (Some url, s') \<Rightarrow> (Inr url, s')
           | (None, s') \<Rightarrow> audioStreamLookup env spaceId s'))"

text \<open>
  \<open>processXSpace\<close>. The \<open>try\<close> around the two steps that obtain the audio replaces
  whatever they throw by \<open>audioUnavailable\<close>; nothing catches what the later steps throw.
\<close>

definition audioUnavailable :: js_error where
  "audioUnavailable =
     new_Error (str ''Unable to access X Space audio. The space may be private, expired, or audio may not be available for download.'')"

definition obtainAudio ::
  "'w environment \<Rightarrow> jsstring \<Rightarrow> 'w runtime \<Rightarrow> (js_error + jsstring \<times> Blob) \<times> 'w runtime" where
  "obtainAudio env spaceUrl s =
     (case extractAudioUrl env spaceUrl s of
        (Inl error, s') \<Rightarrow> (Inl error, s')
      | (Inr audioUrl, s') \<Rightarrow>
          (case extractAudioFromUrl env audioUrl s' of
             (Inl error, s'') \<Rightarrow> (Inl error, s'')
           | (Inr audioBlob, s'') \<Rightarrow> (Inr (audioUrl, audioBlob), s'')))"

definition processXSpace ::
  "'w environment \<Rightarrow> jsstring \<Rightarrow> 'w runtime \<Rightarrow> (js_error + XSpaceProcessingResult) \<times> 'w runtime" where
  "processXSpace env spaceUrl s =
     (case extractSpaceMetadata env spaceUrl s of
        (Inl error, s1) \<Rightarrow> (Inl error, s1)
      | (Inr metadata, s1) \<Rightarrow>
          (case obtainAudio env spaceUrl s1 of
             (Inl error, s2) \<Rightarrow> (Inl audioUnavailable, s2)
           | (Inr (audioUrl, audioBlob), s2) \<Rightarrow>
               (case convertToWav env audioBlob s2 of
                  (Inl error, s3) \<Rightarrow> (Inl error, s3)
                | (Inr processedAudio, s3) \<Rightarrow>
                    (case transcribeAudio env processedAudio (md_title metadata @ str ''.wav'') s3 of
                       (Inl error, s4) \<Rightarrow> (Inl error, s4)
                     | (Inr transcription, s4) \<Rightarrow>
                         (case generateSummary env (tr_text transcription)
                                 (tr_speakers transcription) s4 of
                            (Inl error, s5) \<Rightarrow> (Inl error, s5)
                          | (Inr summaryResult, s5) \<Rightarrow>
                              (Inr \<lparr>pr_metadata = metadata,
                                    pr_transcription = transcription,
                                    pr_summary = summaryResult,
                                    pr_audioUrl = Some audioUrl\<rparr>, s5))))))"

text \<open>
  The lookup of the space comes back without metadata: no response, a status that is
  not \<open>ok\<close>, a body that cannot be read, or a body without \<open>data\<close>.
\<close>

definition lookupFailed :: "response option \<Rightarrow> bool" where
  "lookupFailed response =
     (case response of
        None \<Rightarrow> True
      | Some r \<Rightarrow>
          \<not> resp_ok r
          \<or> (case resp_json r of Inl error \<Rightarrow> True | Inr data \<Rightarrow> b_data data = None))"

text \<open>
  An example environment with nothing configured, in which every request is rejected
  and no audio decodes, and the same with an API key.
\<close>

definition offline :: "unit environment" where
  "offline =
     \<lparr>VITE_OPENAI_API_KEY = None, VITE_TWITTER_BEARER_TOKEN = None,
      VITE_PROXY_SERVER_URL = None, VITE_PROXY_SERVER_ACCESS_TOKEN = None,
      network = (\<lambda>w req. (Inl (JsError (str ''TypeError'') (str ''Failed to fetch'')), w)),
      decodeAudioData = (\<lambda>blob. Inl (JsError (str ''EncodingError'') (str ''Unable to decode audio data''))),
      jsonParse = (\<lambda>text. Inl (JsError (str ''SyntaxError'') (str ''Unexpected token''))),
      caseTable = (\<lambda>s. s),
      rounding = binary64\<rparr>"

definition offlineWithKey :: "unit environment" where
  "offlineWithKey = offline\<lparr>VITE_OPENAI_API_KEY := Some (str ''sk-test'')\<rparr>"

text \<open>
  Two more: nothing answers but a bearer token is set; and every request is answered
  with a status \<open>ok\<close>, an unreadable JSON body and an empty blob, which does not decode.
\<close>

definition offlineWithToken :: "unit environment" where
  "offlineWithToken = offline\<lparr>VITE_TWITTER_BEARER_TOKEN := Some (str ''AAAAAAAAAAAAAAAAAAAAAAAA'')\<rparr>"

definition emptyAudio :: Blob where
  "emptyAudio = \<lparr>blob_bytes = [], blob_type = str ''audio/mpeg''\<rparr>"

definition undecodable :: "unit environment" where
  "undecodable =
     offline\<lparr>network := (\<lambda>w req.
        (Inr \<lparr>resp_ok = True, resp_statusText = str ''OK'',
              resp_json = Inl (JsError (str ''SyntaxError'') (str ''Unexpected end of JSON input'')),
              resp_blob = Inr emptyAudio\<rparr>, w))\<rparr>"

definition start :: "unit runtime" where
  "start = \<lparr>world = (), events = []\<rparr>"


text \<open>
  An environment with an API key in which every request is answered with a status
  \<open>ok\<close> and the given body, and three bodies: one of the expected shape, with two
  segments and a content that is a text; one whose only segment is \<open>null\<close>; one whose
  content is the number 42.
\<close>

definition answering :: "ResponseBody \<Rightarrow> unit environment" where
  "answering body =
     offlineWithKey\<lparr>network := (\<lambda>w req.
        (Inr \<lparr>resp_ok = True, resp_statusText = str ''OK'',
              resp_json = Inr body, resp_blob = Inr emptyAudio\<rparr>, w))\<rparr>"

definition expectedBody :: ResponseBody where
  "expectedBody =
     emptyBody\<lparr>b_transcription :=
                 TranscriptionObject (Some (str ''Hello. How are you?''))
                   (SegmentArray [SegmentObject (Some 0) (Some 2) (StringText (str ''Hello.'')),
                                  SegmentObject (Some 2) (Some 4) (StringText (str ''How are you?''))])
                   (Some (str ''en'')),
               b_content := CompletionContent (Some (JString (str ''All went well.'')))\<rparr>"

definition nullSegmentBody :: ResponseBody where
  "nullSegmentBody =
     emptyBody\<lparr>b_transcription :=
                 TranscriptionObject (Some (str ''Hello.'')) (SegmentArray [NullSegment])
                   (Some (str ''en''))\<rparr>"

definition numericContentBody :: ResponseBody where
  "numericContentBody = emptyBody\<lparr>b_content := CompletionContent (Some (JNumber 42))\<rparr>"
section \<open>Properties of the number format\<close>

text \<open>
  \<open>binary64\<close> maps non-negative rationals to non-negative values, is monotone on
  them, and leaves every natural number below \<open>2 ^ 53\<close> unchanged.
\<close>

lemma roundTiesToEven_of_int: "roundTiesToEven (of_int k) = k"
  by (simp add: roundTiesToEven_def)

lemma roundTiesToEven_bounds: "\<lfloor>x\<rfloor> \<le> roundTiesToEven x \<and> roundTiesToEven x \<le> \<lfloor>x\<rfloor> + 1"
  by (simp add: roundTiesToEven_def Let_def)

lemma roundTiesToEven_mono: "x \<le> y \<Longrightarrow> roundTiesToEven x \<le> roundTiesToEven y"
proof -
  assume xy: "x \<le> y"
  have fl: "\<lfloor>x\<rfloor> \<le> \<lfloor>y\<rfloor>" using xy by (rule floor_mono)
  show ?thesis
  proof (cases "\<lfloor>x\<rfloor> = \<lfloor>y\<rfloor>")
    case True
    then show ?thesis using xy by (auto simp: roundTiesToEven_def Let_def)
  next
    case False
    then have "\<lfloor>x\<rfloor> + 1 \<le> \<lfloor>y\<rfloor>" using fl by simp
    then show ?thesis using roundTiesToEven_bounds [of x] roundTiesToEven_bounds [of y] by linarith
  qed
qed


lemma powi_nat: "0 \<le> k \<Longrightarrow> (2::rat) powi k = 2 ^ nat k"
  by (simp add: power_int_def)

lemma powi_neg: "0 \<le> k \<Longrightarrow> (2::rat) powi (- k) = 1 / 2 ^ nat k"
  by (cases "k = 0") (simp_all add: power_int_def field_simps)

lemma binaryExponent_ge1:
  assumes "1 \<le> x"
  shows "2 powi (binaryExponent x) \<le> x \<and> x < 2 powi (binaryExponent x + 1)"
proof -
  define f where "f = \<lfloor>x\<rfloor>"
  have f1: "1 \<le> f" using assms by (simp add: f_def le_floor_iff)
  then have f0: "0 < f" by simp
  define b where "b = bitlen f"
  have b1: "1 \<le> b" using f0 bitlen_ge_iff_power [of 1 f] by (simp add: b_def)
  from bitlen_bounds [OF f0] have lo: "2 ^ nat (b - 1) \<le> f" and hi: "f < 2 ^ nat b"
    by (simp_all add: b_def)
  have e: "binaryExponent x = b - 1" using assms by (simp add: binaryExponent_def f_def b_def)
  have "(2::rat) ^ nat (b - 1) \<le> of_int f" using lo by simp
  moreover have "of_int f \<le> x" by (simp add: f_def)
  ultimately have "(2::rat) ^ nat (b - 1) \<le> x" by linarith
  then have A: "2 powi (binaryExponent x) \<le> x" using b1 by (simp add: e powi_nat)
  have "f + 1 \<le> 2 ^ nat b" using hi by simp
  then have "(of_int (f + 1) :: rat) \<le> 2 ^ nat b" by (simp only: of_int_le_numeral_power_cancel_iff)
  moreover have "x < of_int (f + 1)" unfolding f_def by linarith
  ultimately have "x < 2 ^ nat b" by linarith
  then have B: "x < 2 powi (binaryExponent x + 1)" using b1 by (simp add: e powi_nat)
  show ?thesis using A B by simp
qed

lemma binaryExponent_lt1:
  assumes "0 < x" "x < 1"
  shows "2 powi (binaryExponent x) \<le> x \<and> x < 2 powi (binaryExponent x + 1)"
proof -
  define y where "y = 1 / x"
  have y1: "1 < y" using assms by (simp add: y_def)
  define c where "c = \<lceil>y\<rceil>"
  have c2: "2 \<le> c" using y1 unfolding c_def by linarith
  then have c0: "0 < c - 1" by simp
  define k where "k = bitlen (c - 1)"
  have k1: "1 \<le> k" using c0 bitlen_ge_iff_power [of 1 "c - 1"] by (simp add: k_def)
  from bitlen_bounds [OF c0] have lo: "2 ^ nat (k - 1) \<le> c - 1" and hi: "c - 1 < 2 ^ nat k"
    by (simp_all add: k_def)
  have e: "binaryExponent x = - k" using assms by (simp add: binaryExponent_def y_def c_def k_def)
  have "c \<le> 2 ^ nat k" using hi by simp
  then have "(of_int c :: rat) \<le> 2 ^ nat k" by (simp only: of_int_le_numeral_power_cancel_iff)
  moreover have "y \<le> of_int c" by (simp add: c_def)
  ultimately have yk: "y \<le> 2 ^ nat k" by linarith
  have "1 / 2 ^ nat k \<le> x"
    using yk assms by (simp add: y_def field_simps)
  then have A: "2 powi (binaryExponent x) \<le> x" using k1 by (simp add: e powi_neg)
  have "(2 ^ nat (k - 1) :: rat) \<le> of_int (c - 1)"
    using lo by (simp only: numeral_power_le_of_int_cancel_iff)
  moreover have "of_int (c - 1) < y" unfolding c_def by linarith
  ultimately have ky: "2 ^ nat (k - 1) < y" by linarith
  have "x < 1 / 2 ^ nat (k - 1)"
    using ky assms by (simp add: y_def field_simps)
  moreover have "(2::rat) powi (binaryExponent x + 1) = 1 / 2 ^ nat (k - 1)"
    using k1 powi_neg [of "k - 1"] by (simp add: e)
  ultimately have B: "x < 2 powi (binaryExponent x + 1)" by simp
  show ?thesis using A B by simp
qed

lemma binaryExponent_bounds:
  assumes "0 < x"
  shows "2 powi (binaryExponent x) \<le> x \<and> x < 2 powi (binaryExponent x + 1)"
  using assms binaryExponent_ge1 [of x] binaryExponent_lt1 [of x] by (cases "1 \<le> x") simp_all


lemma binaryExponent_mono:
  assumes "0 < x" "x \<le> y"
  shows "binaryExponent x \<le> binaryExponent y"
proof (rule ccontr)
  assume "\<not> binaryExponent x \<le> binaryExponent y"
  then have "binaryExponent y + 1 \<le> binaryExponent x" by simp
  then have "(2::rat) powi (binaryExponent y + 1) \<le> 2 powi (binaryExponent x)"
    by (simp add: power_int_increasing)
  moreover have "2 powi (binaryExponent x) \<le> x" using binaryExponent_bounds [of x] assms by simp
  moreover have "y < 2 powi (binaryExponent y + 1)" using binaryExponent_bounds [of y] assms by simp
  ultimately show False using assms by linarith
qed

lemma binary64_pos:
  assumes "0 < x"
  shows "binary64 x = of_int (roundTiesToEven (x / 2 powi (binaryExponent x - 52))) * 2 powi (binaryExponent x - 52)"
  using assms by (simp add: binary64_def Let_def)

lemma powi_split:
  "(2::rat) powi e = 2 ^ 52 * 2 powi (e - 52)" "(2::rat) powi (e + 1) = 2 ^ 53 * 2 powi (e - 52)"
proof -
  have "e = 52 + (e - 52)" by simp
  then have "(2::rat) powi e = 2 powi (52 + (e - 52))" by (rule arg_cong)
  also have "\<dots> = 2 powi 52 * 2 powi (e - 52)" by (rule power_int_add) simp
  finally show "(2::rat) powi e = 2 ^ 52 * 2 powi (e - 52)" by simp
  have "e + 1 = 53 + (e - 52)" by simp
  then have "(2::rat) powi (e + 1) = 2 powi (53 + (e - 52))" by (rule arg_cong)
  also have "\<dots> = 2 powi 53 * 2 powi (e - 52)" by (rule power_int_add) simp
  finally show "(2::rat) powi (e + 1) = 2 ^ 53 * 2 powi (e - 52)" by simp
qed

lemma scaled_bounds:
  assumes "0 < x"
  shows "2 ^ 52 \<le> x / 2 powi (binaryExponent x - 52) \<and> x / 2 powi (binaryExponent x - 52) < 2 ^ 53"
proof -
  define u where "u = (2::rat) powi (binaryExponent x - 52)"
  have u: "0 < u" by (simp add: u_def)
  have "2 ^ 52 * u \<le> x" "x < 2 ^ 53 * u"
    using binaryExponent_bounds [OF assms] powi_split [of "binaryExponent x"] by (simp_all add: u_def)
  then have "2 ^ 52 \<le> x / u" "x / u < 2 ^ 53"
    using u by (simp_all only: pos_le_divide_eq pos_divide_less_eq)
  then show ?thesis by (simp only: u_def)
qed

lemma roundTiesToEven_scaled_bounds:
  assumes "0 < x"
  shows "2 ^ 52 \<le> roundTiesToEven (x / 2 powi (binaryExponent x - 52))
       \<and> roundTiesToEven (x / 2 powi (binaryExponent x - 52)) \<le> 2 ^ 53"
proof -
  let ?m = "x / 2 powi (binaryExponent x - 52)"
  have "roundTiesToEven (of_int (2 ^ 52)) \<le> roundTiesToEven ?m"
    using scaled_bounds [OF assms] by (intro roundTiesToEven_mono) simp
  moreover have "roundTiesToEven ?m \<le> roundTiesToEven (of_int (2 ^ 53))"
    using scaled_bounds [OF assms] by (intro roundTiesToEven_mono) simp
  ultimately show ?thesis by (simp only: roundTiesToEven_of_int) 
qed

lemma binary64_between:
  assumes "0 < x"
  shows "2 powi (binaryExponent x) \<le> binary64 x \<and> binary64 x \<le> 2 powi (binaryExponent x + 1)"
proof -
  define u where "u = (2::rat) powi (binaryExponent x - 52)"
  define m where "m = roundTiesToEven (x / u)"
  have u: "0 < u" by (simp add: u_def)
  have m: "2 ^ 52 \<le> m" "m \<le> 2 ^ 53"
    using roundTiesToEven_scaled_bounds [OF assms] by (simp_all add: m_def u_def)
  have v: "binary64 x = of_int m * u" using binary64_pos [OF assms] by (simp add: m_def u_def)
  have m1: "(2 ^ 52 :: rat) \<le> of_int m" using m(1) by (simp only: numeral_power_le_of_int_cancel_iff)
  have m2: "(of_int m :: rat) \<le> 2 ^ 53" using m(2) by (simp only: of_int_le_numeral_power_cancel_iff)
  have "2 ^ 52 * u \<le> of_int m * u" using m1 u by (simp only: mult_le_cancel_right_pos)
  moreover have "of_int m * u \<le> 2 ^ 53 * u" using m2 u by (simp only: mult_le_cancel_right_pos)
  ultimately show ?thesis
    using powi_split [of "binaryExponent x"] by (simp only: v u_def)
qed

lemma binary64_mono_pos:
  assumes "0 < x" "x \<le> y"
  shows "binary64 x \<le> binary64 y"
proof (cases "binaryExponent x = binaryExponent y")
  case True
  have y: "0 < y" using assms by simp
  let ?u = "(2::rat) powi (binaryExponent y - 52)"
  have u: "0 < ?u" by simp
  have "x / ?u \<le> y / ?u" using assms u by (simp add: divide_right_mono)
  then have "roundTiesToEven (x / ?u) \<le> roundTiesToEven (y / ?u)" by (rule roundTiesToEven_mono)
  then have "(of_int (roundTiesToEven (x / ?u)) :: rat) \<le> of_int (roundTiesToEven (y / ?u))" by simp
  then have "of_int (roundTiesToEven (x / ?u)) * ?u \<le> of_int (roundTiesToEven (y / ?u)) * ?u"
    using u by (simp only: mult_le_cancel_right_pos)
  then show ?thesis using binary64_pos [OF assms(1)] binary64_pos [OF y] True by simp
next
  case False
  have y: "0 < y" using assms by simp
  have "binaryExponent x + 1 \<le> binaryExponent y" using False binaryExponent_mono [OF assms] by simp
  then have "(2::rat) powi (binaryExponent x + 1) \<le> 2 powi (binaryExponent y)"
    by (simp add: power_int_increasing)
  then show ?thesis using binary64_between [OF assms(1)] binary64_between [OF y] by linarith
qed

lemma binary64_nonneg: "0 \<le> x \<Longrightarrow> 0 \<le> binary64 x"
proof (cases "x = 0")
  case True then show ?thesis by (simp add: binary64_def)
next
  case False
  assume "0 \<le> x"
  then have "0 < x" using False by simp
  from binary64_between [OF this] have "2 powi (binaryExponent x) \<le> binary64 x" by simp
  moreover have "(0::rat) < 2 powi (binaryExponent x)" by simp
  ultimately show ?thesis by linarith
qed

lemma binary64_mono:
  assumes "0 \<le> x" "x \<le> y"
  shows "binary64 x \<le> binary64 y"
proof (cases "x = 0")
  case True
  then show ?thesis using binary64_nonneg [of y] assms by (simp add: binary64_def)
next
  case False
  then show ?thesis using binary64_mono_pos [of x y] assms by simp
qed


lemma binary64_of_nat:
  assumes "n < 2 ^ 53"
  shows "binary64 (of_nat n) = of_nat n"
proof (cases "n = 0")
  case True
  then show ?thesis by (simp add: binary64_def)
next
  case False
  define x :: rat where "x = of_nat n"
  have x: "0 < x" using False by (simp add: x_def)
  define e where "e = binaryExponent x"
  have "x < 2 ^ 53" using assms unfolding x_def
    by (metis of_nat_less_iff of_nat_numeral of_nat_power)
  then have "(2::rat) powi e < 2 powi 53" using binaryExponent_bounds [OF x] by (simp add: e_def)
  then have e: "e \<le> 52"
    using power_int_increasing [of 53 e "2::rat"] by (cases "e \<le> 52") simp_all
  define j where "j = nat (52 - e)"
  have u: "(2::rat) powi (e - 52) = 1 / 2 ^ j"
    using e powi_neg [of "52 - e"] by (simp add: j_def)
  have "x / 2 powi (e - 52) = of_int (int n * 2 ^ j)" by (simp add: u x_def)
  then have "roundTiesToEven (x / 2 powi (e - 52)) = int n * 2 ^ j"
    by (simp only: roundTiesToEven_of_int)
  then have "binary64 x = of_int (int n * 2 ^ j) * (1 / 2 ^ j)"
    using binary64_pos [OF x] by (simp only: e_def [symmetric] u)
  then show ?thesis by (simp add: x_def)
qed

section \<open>Properties of the transcription service\<close>

subsection \<open>Per-segment scores in binary64\<close>

lemma binary64_score_consts:
  "binary64 (4 / 5) = 3602879701896397 / 4503599627370496"
  "binary64 (19 / 20) = 4278419646001971 / 4503599627370496"
  "binary64 (binary64 (4 / 5) + binary64 (1 / 10)) = 8106479329266893 / 9007199254740992"
  "binary64 (binary64 (4 / 5) + binary64 (1 / 20)) = 1914029841632461 / 2251799813685248"
  "binary64 (binary64 (binary64 (4 / 5) + binary64 (1 / 10)) + binary64 (1 / 20)) = 8556839292003943 / 9007199254740992"
  by code_simp+

lemma segmentScore_binary64:
  "segmentScore binary64 segment =
     (if 2 < binary64 (of_nat (length (seg_text segment)) / max (binary64 (seg_end segment - seg_start segment)) 1)
         \<and> binary64 (of_nat (length (seg_text segment)) / max (binary64 (seg_end segment - seg_start segment)) 1) < 8
      then (if str_includes (seg_text segment) (str ''.'') \<or> str_includes (seg_text segment) (str ''?'')
            then 4278419646001971 / 4503599627370496
            else 8106479329266893 / 9007199254740992)
      else (if str_includes (seg_text segment) (str ''.'') \<or> str_includes (seg_text segment) (str ''?'')
            then 1914029841632461 / 2251799813685248
            else 3602879701896397 / 4503599627370496))"
proof -
  define paced where "paced \<longleftrightarrow>
     2 < binary64 (of_nat (length (seg_text segment)) / max (binary64 (seg_end segment - seg_start segment)) 1)
     \<and> binary64 (of_nat (length (seg_text segment)) / max (binary64 (seg_end segment - seg_start segment)) 1) < 8"
  define punct where "punct \<longleftrightarrow>
     str_includes (seg_text segment) (str ''.'') \<or> str_includes (seg_text segment) (str ''?'')"
  have eq: "segmentScore binary64 segment =
     min (if punct
          then binary64 ((if paced then binary64 (binary64 (4 / 5) + binary64 (1 / 10)) else binary64 (4 / 5))
                         + binary64 (1 / 20))
          else (if paced then binary64 (binary64 (4 / 5) + binary64 (1 / 10)) else binary64 (4 / 5)))
         (binary64 (19 / 20))"
    by (simp only: segmentScore_def Let_def paced_def punct_def)
  have "segmentScore binary64 segment =
     (if paced then (if punct then 4278419646001971 / 4503599627370496 else 8106479329266893 / 9007199254740992)
      else (if punct then 1914029841632461 / 2251799813685248 else 3602879701896397 / 4503599627370496))"
  proof (cases paced)
    case True
    note p = this
    show ?thesis
    proof (cases punct)
      case True
      with p have "segmentScore binary64 segment =
          min (binary64 (binary64 (binary64 (4 / 5) + binary64 (1 / 10)) + binary64 (1 / 20))) (binary64 (19 / 20))"
        by (simp only: eq if_True)
      then show ?thesis using p True
        by (simp only: binary64_score_consts(5) binary64_score_consts(2)) simp
    next
      case False
      with p have "segmentScore binary64 segment =
          min (binary64 (binary64 (4 / 5) + binary64 (1 / 10))) (binary64 (19 / 20))"
        by (simp only: eq if_True if_False)
      then show ?thesis using p False
        by (simp only: binary64_score_consts(3) binary64_score_consts(2)) simp
    qed
  next
    case False
    note p = this
    show ?thesis
    proof (cases punct)
      case True
      with p have "segmentScore binary64 segment =
          min (binary64 (binary64 (4 / 5) + binary64 (1 / 20))) (binary64 (19 / 20))"
        by (simp only: eq if_True if_False)
      then show ?thesis using p True
        by (simp only: binary64_score_consts(4) binary64_score_consts(2)) simp
    next
      case False
      with p have "segmentScore binary64 segment = min (binary64 (4 / 5)) (binary64 (19 / 20))"
        by (simp only: eq if_False)
      then show ?thesis using p False
        by (simp only: binary64_score_consts(1) binary64_score_consts(2)) simp
    qed
  qed
  then show ?thesis by (simp only: paced_def punct_def)
qed

lemma segmentScore_binary64_range:
  "4 / 5 \<le> segmentScore binary64 segment \<and> segmentScore binary64 segment \<le> 19 / 20"
  by (simp add: segmentScore_binary64)

lemma binary64_small: "binary64 1 = 1" "binary64 4 = 4"
  using binary64_of_nat [of 1] binary64_of_nat [of 4] by simp_all

lemma yes_score:
  "b - a = 1 \<longrightarrow> segmentScore binary64 \<lparr>seg_start = a, seg_end = b, seg_text = str ''Yes.'', seg_speaker = sp\<rparr>
     = 4278419646001971 / 4503599627370496"
  by (simp add: segmentScore_binary64 str_def binary64_small)

lemma upt6: "[0..<6] = [0, 1, 2, 3, 4, 5]"
  by (simp add: upt_rec)

lemma sixSegments_processed:
  "processSegments sixSegments =
     [\<lparr>seg_start = 0, seg_end = 1, seg_text = str ''Yes.'', seg_speaker = Some (str ''Speaker 1'')\<rparr>,
      \<lparr>seg_start = 1, seg_end = 2, seg_text = str ''Yes.'', seg_speaker = Some (str ''Speaker 1'')\<rparr>,
      \<lparr>seg_start = 2, seg_end = 3, seg_text = str ''Yes.'', seg_speaker = Some (str ''Speaker 1'')\<rparr>,
      \<lparr>seg_start = 3, seg_end = 4, seg_text = str ''Yes.'', seg_speaker = Some (str ''Speaker 1'')\<rparr>,
      \<lparr>seg_start = 4, seg_end = 5, seg_text = str ''Yes.'', seg_speaker = Some (str ''Speaker 1'')\<rparr>,
      \<lparr>seg_start = 5, seg_end = 6, seg_text = str ''Yes.'', seg_speaker = Some (str ''Speaker 2'')\<rparr>]"
  by (simp add: processSegments_def processSegment_def sixSegments_def upt6 or_number_def or_string_def
      numberToString.simps str_def)

lemma binary64_running_sum:
  "binary64 (0 + 4278419646001971 / 4503599627370496) = 4278419646001971 / 4503599627370496"
  "binary64 (4278419646001971 / 4503599627370496 + 4278419646001971 / 4503599627370496) = 4278419646001971 / 2251799813685248"
  "binary64 (4278419646001971 / 2251799813685248 + 4278419646001971 / 4503599627370496) = 1604407367250739 / 562949953421312"
  "binary64 (1604407367250739 / 562949953421312 + 4278419646001971 / 4503599627370496) = 4278419646001971 / 1125899906842624"
  "binary64 (4278419646001971 / 1125899906842624 + 4278419646001971 / 4503599627370496) = 19 / 4"
  "binary64 (19 / 4 + 4278419646001971 / 4503599627370496) = 6417629469002957 / 1125899906842624"
  "binary64 (6417629469002957 / 1125899906842624 / 6) = 8556839292003943 / 9007199254740992"
  by code_simp+

lemma totalScore_bounds:
  "length segments < 2 ^ 53 \<Longrightarrow>
   0 \<le> foldl (\<lambda>totalScore segment. binary64 (totalScore + segmentScore binary64 segment)) 0 segments
   \<and> foldl (\<lambda>totalScore segment. binary64 (totalScore + segmentScore binary64 segment)) 0 segments
       \<le> of_nat (length segments)"
proof (induction segments rule: rev_induct)
  case Nil
  then show ?case by simp
next
  case (snoc segment segments)
  let ?t = "foldl (\<lambda>totalScore segment. binary64 (totalScore + segmentScore binary64 segment)) 0 segments"
  have n: "Suc (length segments) < 2 ^ 53" using snoc.prems by simp
  then have ih: "0 \<le> ?t" "?t \<le> of_nat (length segments)" using snoc.IH by simp_all
  have s: "4 / 5 \<le> segmentScore binary64 segment" "segmentScore binary64 segment \<le> 19 / 20"
    using segmentScore_binary64_range [of segment] by simp_all
  have lo: "0 \<le> ?t + segmentScore binary64 segment" using ih s by linarith
  have hi: "?t + segmentScore binary64 segment \<le> of_nat (Suc (length segments))" using ih s by simp
  have "binary64 (?t + segmentScore binary64 segment) \<le> binary64 (of_nat (Suc (length segments)))"
    using lo hi by (rule binary64_mono)
  then have "binary64 (?t + segmentScore binary64 segment) \<le> of_nat (Suc (length segments))"
    using binary64_of_nat [OF n] by simp
  moreover have "0 \<le> binary64 (?t + segmentScore binary64 segment)"
    using lo by (rule binary64_nonneg)
  ultimately show ?case by simp
qed

lemma confidence_binary64_bounds:
  assumes "segments \<noteq> []" "length segments < 2 ^ 53"
  shows "0 \<le> calculateAverageConfidence binary64 segments \<and> calculateAverageConfidence binary64 segments \<le> 1"
proof -
  let ?t = "foldl (\<lambda>totalScore segment. binary64 (totalScore + segmentScore binary64 segment)) 0 segments"
  have n: "0 < (of_nat (length segments) :: rat)" using assms(1) by simp
  have t: "0 \<le> ?t" "?t \<le> of_nat (length segments)" using totalScore_bounds [OF assms(2)] by simp_all
  have q0: "0 \<le> ?t / of_nat (length segments)" using t n by simp
  have q1: "?t / of_nat (length segments) \<le> 1" using t n by (simp add: pos_divide_le_eq)
  have "binary64 (?t / of_nat (length segments)) \<le> binary64 1" using q0 q1 by (rule binary64_mono)
  moreover have "0 \<le> binary64 (?t / of_nat (length segments))" using q0 by (rule binary64_nonneg)
  ultimately show ?thesis using assms(1) by (simp add: calculateAverageConfidence_def binary64_small)
qed

lemma exact_total:
  "foldl (\<lambda>totalScore segment. totalScore + f segment) a segments = a + sum_list (map f segments)"
  by (induction segments arbitrary: a) (simp_all add: add.assoc)

lemma rounded_total:
  "foldl (\<lambda>totalScore segment. rnd (totalScore + f segment)) a segments
     = foldl (\<lambda>totalScore score. rnd (totalScore + score)) a (map f segments)"
  by (induction segments arbitrary: a) simp_all

lemma str_includes_single: "str_includes s [c] \<longleftrightarrow> c \<in> set s"
  by (induction s) auto

lemma segmentScore_exact_range:
  "4 / 5 \<le> segmentScore (\<lambda>x. x) segment \<and> segmentScore (\<lambda>x. x) segment \<le> 19 / 20"
  by (simp add: segmentScore_def Let_def)

lemma sum_list_scores_bounds:
  "of_nat (length segments) * (4 / 5) \<le> sum_list (map (segmentScore (\<lambda>x. x)) segments)
   \<and> sum_list (map (segmentScore (\<lambda>x. x)) segments) \<le> of_nat (length segments) * (19 / 20)"
proof (induction segments)
  case Nil
  then show ?case by simp
next
  case (Cons segment segments)
  then show ?case using segmentScore_exact_range [of segment] by (simp add: algebra_simps)
qed

lemma confidence_exact:
  "calculateAverageConfidence (\<lambda>x. x) segments
     = (if segments = [] then 0
        else sum_list (map (segmentScore (\<lambda>x. x)) segments) / of_nat (length segments))"
  by (simp add: calculateAverageConfidence_def exact_total)

lemma confidence_exact_bounds:
  assumes "segments \<noteq> []"
  shows "4 / 5 \<le> calculateAverageConfidence (\<lambda>x. x) segments
       \<and> calculateAverageConfidence (\<lambda>x. x) segments \<le> 19 / 20"
proof -
  have n: "0 < (of_nat (length segments) :: rat)" using assms by simp
  show ?thesis
    using sum_list_scores_bounds [of segments] n assms
    by (simp add: confidence_exact pos_le_divide_eq pos_divide_le_eq mult.commute)
qed

subsection \<open>The confidence heuristic\<close>

text \<open>
  Claim C2, as stated, fails: the bonus of \<open>0.05\<close> is given to a text that
  \<^emph>\<open>contains\<close> a full stop or a question mark, not only to one that ends with it. The
  segment \<open>Dr. Smith agreed\<close> from second 0 to second 4 (16 code units, 4 per second)
  scores \<open>0.95\<close> in the program and \<open>0.9\<close> by the stated formula.
\<close>

theorem segmentScore_ends_with_counterexample:
  "segmentScore binary64
     \<lparr>seg_start = 0, seg_end = 4, seg_text = str ''Dr. Smith agreed'',
      seg_speaker = Some (str ''Speaker 1'')\<rparr>
     = 4278419646001971 / 4503599627370496
   \<and> claimed_segmentScore binary64
     \<lparr>seg_start = 0, seg_end = 4, seg_text = str ''Dr. Smith agreed'',
      seg_speaker = Some (str ''Speaker 1'')\<rparr>
     = 8106479329266893 / 9007199254740992
   \<and> segmentScore binary64
     \<lparr>seg_start = 0, seg_end = 4, seg_text = str ''Dr. Smith agreed'',
      seg_speaker = Some (str ''Speaker 1'')\<rparr>
     \<noteq> claimed_segmentScore binary64
     \<lparr>seg_start = 0, seg_end = 4, seg_text = str ''Dr. Smith agreed'',
      seg_speaker = Some (str ''Speaker 1'')\<rparr>"
proof -
  let ?segment = "\<lparr>seg_start = 0, seg_end = 4, seg_text = str ''Dr. Smith agreed'',
      seg_speaker = Some (str ''Speaker 1'')\<rparr>"
  have a: "segmentScore binary64 ?segment = 4278419646001971 / 4503599627370496"
    by (simp add: segmentScore_binary64 str_def binary64_small)
  have "claimed_segmentScore binary64 ?segment
     = min (binary64 (binary64 (4 / 5) + binary64 (1 / 10))) (binary64 (19 / 20))"
    by (simp add: claimed_segmentScore_def str_def binary64_small endsWith_def)
  then have b: "claimed_segmentScore binary64 ?segment = 8106479329266893 / 9007199254740992"
    by (simp add: binary64_score_consts(3) binary64_score_consts(2))
  show ?thesis by (simp add: a b)
qed

text \<open>
  Claim C2, amended: for every segment the score is the base \<open>0.8\<close>, plus \<open>0.1\<close> when
  the text length divided by \<open>max(end - start, 1)\<close> is strictly between 2 and 8, plus
  \<open>0.05\<close> when the text contains \<open>.\<close> (code unit \<open>0x2E\<close>) or \<open>?\<close> (\<open>0x3F\<close>), capped at
  \<open>0.95\<close>, each operation rounded by the number format \<open>rnd\<close>; the transcript-level
  confidence is the sum of these scores in sequence order divided by their number, and
  with exact arithmetic it is their arithmetic mean.
\<close>

theorem segmentScore_formula:
  "segmentScore rnd segment =
     min (let wordsPerSecond =
                rnd (of_nat (length (seg_text segment))
                     / max (rnd (seg_end segment - seg_start segment)) 1);
              paced = (if 2 < wordsPerSecond \<and> wordsPerSecond < 8
                       then rnd (rnd (4 / 5) + rnd (1 / 10)) else rnd (4 / 5))
          in if 0x2E \<in> set (seg_text segment) \<or> 0x3F \<in> set (seg_text segment)
             then rnd (paced + rnd (1 / 20)) else paced)
         (rnd (19 / 20))
   \<and> calculateAverageConfidence rnd segments =
       (if segments = [] then 0
        else rnd (foldl (\<lambda>total score. rnd (total + score)) 0 (map (segmentScore rnd) segments)
                  / of_nat (length segments)))
   \<and> segmentScore (\<lambda>x. x) segment =
       min (4 / 5
            + (if 2 < of_nat (length (seg_text segment)) / max (seg_end segment - seg_start segment) 1
                  \<and> of_nat (length (seg_text segment)) / max (seg_end segment - seg_start segment) 1 < 8
               then 1 / 10 else 0)
            + (if 0x2E \<in> set (seg_text segment) \<or> 0x3F \<in> set (seg_text segment)
               then 1 / 20 else 0))
           (19 / 20)
   \<and> calculateAverageConfidence (\<lambda>x. x) segments =
       (if segments = [] then 0
        else sum_list (map (segmentScore (\<lambda>x. x)) segments) / of_nat (length segments))
   \<and> tr_confidence (transcriptionResult rnd data)
       = calculateAverageConfidence rnd (tr_segments (transcriptionResult rnd data))"
proof -
  have p: "str_includes (seg_text segment) (str ''.'') = (0x2E \<in> set (seg_text segment))"
          "str_includes (seg_text segment) (str ''?'') = (0x3F \<in> set (seg_text segment))"
    using str_includes_single [of "seg_text segment"] by (simp_all add: str_def)
  have a: "segmentScore rnd segment =
     min (let wordsPerSecond =
                rnd (of_nat (length (seg_text segment))
                     / max (rnd (seg_end segment - seg_start segment)) 1);
              paced = (if 2 < wordsPerSecond \<and> wordsPerSecond < 8
                       then rnd (rnd (4 / 5) + rnd (1 / 10)) else rnd (4 / 5))
          in if 0x2E \<in> set (seg_text segment) \<or> 0x3F \<in> set (seg_text segment)
             then rnd (paced + rnd (1 / 20)) else paced)
         (rnd (19 / 20))" for rnd
    by (simp only: segmentScore_def Let_def p)
  have b: "calculateAverageConfidence rnd segments =
       (if segments = [] then 0
        else rnd (foldl (\<lambda>total score. rnd (total + score)) 0 (map (segmentScore rnd) segments)
                  / of_nat (length segments)))"
    by (simp add: calculateAverageConfidence_def rounded_total)
  have c: "segmentScore (\<lambda>x. x) segment =
       min (4 / 5
            + (if 2 < of_nat (length (seg_text segment)) / max (seg_end segment - seg_start segment) 1
                  \<and> of_nat (length (seg_text segment)) / max (seg_end segment - seg_start segment) 1 < 8
               then 1 / 10 else 0)
            + (if 0x2E \<in> set (seg_text segment) \<or> 0x3F \<in> set (seg_text segment)
               then 1 / 20 else 0))
           (19 / 20)"
    by (simp add: a [of "\<lambda>x. x"] Let_def)
  have d: "tr_confidence (transcriptionResult rnd data)
       = calculateAverageConfidence rnd (tr_segments (transcriptionResult rnd data))"
    by (simp add: transcriptionResult_def Let_def)
  show ?thesis using a [of rnd] b c d confidence_exact [of segments] by (intro conjI)
qed

text \<open>
  Claim C7, as stated, fails in the program's arithmetic: every per-segment score is at most
  \<open>0.95\<close>, but the rounded sum of six scores of \<open>0.95\<close> is \<open>5.7\<close>, and \<open>5.7 / 6\<close>
  rounds to \<open>0.9500000000000001\<close>, the double \<open>8556839292003943 / 2 ^ 53\<close>.
\<close>

theorem confidence_above_cap_counterexample:
  "calculateAverageConfidence binary64 (processSegments sixSegments)
     = 8556839292003943 / 9007199254740992
   \<and> 19 / 20 < calculateAverageConfidence binary64 (processSegments sixSegments)"
proof -
  let ?L = "processSegments sixSegments"
  let ?F = "\<lambda>totalScore segment. binary64 (totalScore + segmentScore binary64 segment)"
  have len: "length ?L = 6" by (simp add: processSegments_def sixSegments_def)
  have total: "foldl ?F 0 ?L = 6417629469002957 / 1125899906842624"
    by (simp only: sixSegments_processed foldl_Cons foldl_Nil)
       (simp only: yes_score [of 1 0] yes_score [of 2 1] yes_score [of 3 2] yes_score [of 4 3]
          yes_score [of 5 4] yes_score [of 6 5] binary64_running_sum)
  have "calculateAverageConfidence binary64 ?L = binary64 (foldl ?F 0 ?L / 6)"
    by (simp add: calculateAverageConfidence_def len)
  also have "\<dots> = binary64 (6417629469002957 / 1125899906842624 / 6)"
    by (simp only: total)
  also have "\<dots> = 8556839292003943 / 9007199254740992"
    by (rule binary64_running_sum(7))
  finally show ?thesis by simp
qed

text \<open>
  Claim C7, amended: the confidence of the empty sequence is exactly 0; every per-segment
  score lies in \<open>[0.8, 0.95]\<close>; the confidence of a non-empty sequence (of fewer than
  \<open>2 ^ 53\<close> segments) lies in \<open>[0, 1]\<close> in binary64 arithmetic, and in \<open>[0.8, 0.95]\<close>
  in exact arithmetic.
\<close>

theorem confidence_range:
  "calculateAverageConfidence binary64 [] = 0
   \<and> 4 / 5 \<le> segmentScore binary64 segment \<and> segmentScore binary64 segment \<le> 19 / 20
   \<and> (segments \<noteq> [] \<and> length segments < 2 ^ 53 \<longrightarrow>
        0 \<le> calculateAverageConfidence binary64 segments
        \<and> calculateAverageConfidence binary64 segments \<le> 1)
   \<and> (segments \<noteq> [] \<longrightarrow>
        4 / 5 \<le> calculateAverageConfidence (\<lambda>x. x) segments
        \<and> calculateAverageConfidence (\<lambda>x. x) segments \<le> 19 / 20)"
  using segmentScore_binary64_range [of segment] confidence_binary64_bounds [of segments]
    confidence_exact_bounds [of segments]
  by (simp add: calculateAverageConfidence_def)

theorem confidence_range_witness:
  "processSegments sixSegments \<noteq> [] \<and> length (processSegments sixSegments) < 2 ^ 53
   \<and> 0 \<le> calculateAverageConfidence binary64 (processSegments sixSegments)
   \<and> calculateAverageConfidence binary64 (processSegments sixSegments) \<le> 1
   \<and> 4 / 5 \<le> calculateAverageConfidence (\<lambda>x. x) (processSegments sixSegments)
   \<and> calculateAverageConfidence (\<lambda>x. x) (processSegments sixSegments) \<le> 19 / 20"
proof -
  have h: "processSegments sixSegments \<noteq> [] \<and> length (processSegments sixSegments) < 2 ^ 53"
    by (simp add: sixSegments_processed)
  show ?thesis
    using h confidence_range [of "hd (processSegments sixSegments)" "processSegments sixSegments"]
    by simp
qed

subsection \<open>Speaker labels\<close>

text \<open>
  \<open>numberToString\<close> is a decimal rendering: its characters are digits and their value,
  read in base ten, is the number.
\<close>

lemma numberToString_digits:
  "list_all isDigit (numberToString n)
   \<and> foldl (\<lambda>value c. 10 * value + (unat c - 48)) 0 (numberToString n) = n"
proof (induction n rule: numberToString.induct)
  case (1 n)
  show ?case
  proof (cases "n < 10")
    case True
    have "unat (of_nat (48 + n) :: 16 word) = (48 + n) mod 2 ^ LENGTH(16)"
      by (rule unat_of_nat)
    then have u: "unat (of_nat (48 + n) :: 16 word) = 48 + n"
      using True by simp
    have d: "isDigit (of_nat (48 + n))"
      using True u by (simp add: isDigit_def word_le_nat_alt)
    show ?thesis using True u d by (simp add: numberToString.simps [of n])
  next
    case False
    have m: "n mod 10 < 10" by simp
    have "unat (of_nat (48 + n mod 10) :: 16 word) = (48 + n mod 10) mod 2 ^ LENGTH(16)"
      by (rule unat_of_nat)
    then have u: "unat (of_nat (48 + n mod 10) :: 16 word) = 48 + n mod 10"
      using m by simp
    have d: "isDigit (of_nat (48 + n mod 10))"
      using m u by (simp add: isDigit_def word_le_nat_alt)
    show ?thesis using False "1.IH" u d by (simp add: numberToString.simps [of n])
  qed
qed

lemma numberToString_1: "numberToString (Suc 0) = str ''1''"
  by (simp add: numberToString.simps str_def)

text \<open>
  Claim C3: the segment at index \<open>i\<close> is labelled \<open>Speaker\<close> followed by the decimal
  rendering of \<open>i div 5 + 1\<close>; a sequence of at most five segments is labelled
  \<open>Speaker 1\<close> throughout.
\<close>

theorem processSegments_speaker_label:
  "i < length segments \<Longrightarrow>
     length (processSegments segments) = length segments \<and>
     seg_speaker (processSegments segments ! i) = Some (str ''Speaker '' @ numberToString (i div 5 + 1)) \<and>
     (length segments \<le> 5 \<longrightarrow> seg_speaker (processSegments segments ! i) = Some (str ''Speaker 1''))"
  by (simp add: processSegments_def processSegment_def numberToString_1 str_def)

theorem processSegments_speaker_label_witness:
  "5 < length sixSegments
   \<and> seg_speaker (processSegments sixSegments ! 5) = Some (str ''Speaker 2'')
   \<and> 2 < length threeSegments \<and> length threeSegments \<le> 5
   \<and> seg_speaker (processSegments threeSegments ! 2) = Some (str ''Speaker 1'')"
proof -
  have h6: "5 < length sixSegments" by (simp add: sixSegments_def)
  have h3: "2 < length threeSegments" "length threeSegments \<le> 5" by (simp_all add: threeSegments_def)
  have digits: "numberToString (Suc 0) = str ''1''" "numberToString (Suc (Suc 0)) = str ''2''"
    by (simp_all add: numberToString.simps str_def)
  show ?thesis
    using h6 h3 processSegments_speaker_label [OF h6] processSegments_speaker_label [OF h3(1)]
    by (simp add: digits str_def)
qed

subsection \<open>Speakers of a transcript\<close>

lemma set_first_appearances: "set (first_appearances xs) = set xs"
  by (induction xs rule: first_appearances.induct) auto

lemma distinct_first_appearances: "distinct (first_appearances xs)"
  by (induction xs rule: first_appearances.induct) (auto simp: set_first_appearances)

lemma identifySpeakers_foldl:
  "foldl identifySpeakers_step acc segments
     = acc @ first_appearances
               (filter (\<lambda>s. s \<notin> set acc) (filter (\<lambda>s. s \<noteq> []) (List.map_filter seg_speaker segments)))"
proof (induction segments arbitrary: acc)
  case Nil
  then show ?case by (simp add: List.map_filter_simps)
next
  case (Cons segment segments)
  show ?case
  proof (cases "seg_speaker segment")
    case None
    then show ?thesis using Cons.IH [of acc] by (simp add: identifySpeakers_step_def List.map_filter_simps)
  next
    case (Some s)
    show ?thesis using Some Cons.IH [of acc] Cons.IH [of "acc @ [s]"]
      by (simp add: identifySpeakers_step_def List.map_filter_simps set_add_def conj_ac)
  qed
qed

lemma identifySpeakers_eq:
  "identifySpeakers segments
     = first_appearances (filter (\<lambda>s. s \<noteq> []) (List.map_filter seg_speaker segments))"
  by (simp add: identifySpeakers_def identifySpeakers_foldl)

lemma first_index_Cons:
  "first_index (y # ys) a = (if y = a then 0 else Suc (first_index ys a))"
  by (simp add: first_index_def)

lemma first_index_filter:
  "a \<noteq> x \<Longrightarrow> b \<noteq> x \<Longrightarrow>
   first_index (filter (\<lambda>y. y \<noteq> x) ys) a < first_index (filter (\<lambda>y. y \<noteq> x) ys) b \<Longrightarrow>
   first_index ys a < first_index ys b"
  by (induction ys) (auto simp: first_index_Cons split: if_splits)

lemma first_index_first_appearances:
  "i < j \<Longrightarrow> j < length (first_appearances xs) \<Longrightarrow>
     first_index xs (first_appearances xs ! i) < first_index xs (first_appearances xs ! j)"
proof (induction xs arbitrary: i j rule: first_appearances.induct)
  case 1
  then show ?case by simp
next
  case (2 x xs)
  let ?F = "first_appearances (filter (\<lambda>y. y \<noteq> x) xs)"
  obtain j' where j: "j = Suc j'" using "2.prems"(1) by (cases j) simp_all
  have j'len: "j' < length ?F" using "2.prems"(2) j by simp
  then have "?F ! j' \<in> set ?F" by simp
  then have bx: "?F ! j' \<noteq> x" by (simp add: set_first_appearances)
  show ?case
  proof (cases i)
    case 0
    then show ?thesis using j bx by (simp add: first_index_Cons)
  next
    case (Suc i')
    then have i': "i' < j'" using "2.prems"(1) j by simp
    then have "?F ! i' \<in> set ?F" using j'len by simp
    then have ax: "?F ! i' \<noteq> x" by (simp add: set_first_appearances)
    have "first_index (filter (\<lambda>y. y \<noteq> x) xs) (?F ! i') < first_index (filter (\<lambda>y. y \<noteq> x) xs) (?F ! j')"
      using "2.IH" [OF i' j'len] .
    then have "first_index xs (?F ! i') < first_index xs (?F ! j')"
      using ax bx by (rule first_index_filter [rotated 2])
    then show ?thesis using Suc j ax bx by (simp add: first_index_Cons)
  qed
qed

lemma map_filter_map_Some:
  "(\<And>x. f (g x) = Some (h x)) \<Longrightarrow> List.map_filter f (map g xs) = map h xs"
  by (induction xs) (simp_all add: List.map_filter_simps)

lemma processSegments_labels:
  "List.map_filter seg_speaker (processSegments segments)
     = map (\<lambda>(segment, index). str ''Speaker '' @ numberToString (index div 5 + 1))
         (zip segments [0..<length segments])"
  unfolding processSegments_def
  by (rule map_filter_map_Some) (simp add: processSegment_def split: prod.splits)

lemma processSegments_labels_nonempty:
  "filter (\<lambda>s. s \<noteq> []) (List.map_filter seg_speaker (processSegments segments))
     = List.map_filter seg_speaker (processSegments segments)"
  unfolding processSegments_labels
  by (rule filter_True) (auto simp: str_def)

text \<open>
  Claim C6: the \<open>speakers\<close> of the transcript built from any provider answer are the
  distinct speaker values of its segments, each once, in the order of their first
  appearance in the segment sequence.
\<close>

theorem speakers_first_appearance:
  "tr_speakers (transcriptionResult rnd data)
     = first_appearances (List.map_filter seg_speaker (tr_segments (transcriptionResult rnd data)))
   \<and> distinct (tr_speakers (transcriptionResult rnd data))
   \<and> set (tr_speakers (transcriptionResult rnd data))
       = set (List.map_filter seg_speaker (tr_segments (transcriptionResult rnd data)))
   \<and> (i < j \<and> j < length (tr_speakers (transcriptionResult rnd data)) \<longrightarrow>
        first_index (List.map_filter seg_speaker (tr_segments (transcriptionResult rnd data)))
                    (tr_speakers (transcriptionResult rnd data) ! i)
        < first_index (List.map_filter seg_speaker (tr_segments (transcriptionResult rnd data)))
                      (tr_speakers (transcriptionResult rnd data) ! j))"
proof -
  define labels where
    "labels = List.map_filter seg_speaker (tr_segments (transcriptionResult rnd data))"
  have sp: "tr_speakers (transcriptionResult rnd data) = first_appearances labels"
    by (simp add: labels_def transcriptionResult_def Let_def identifySpeakers_eq
        processSegments_labels_nonempty)
  show ?thesis
    unfolding labels_def [symmetric] sp
    using first_index_first_appearances [of i j labels]
    by (simp add: distinct_first_appearances set_first_appearances)
qed

theorem speakers_first_appearance_witness:
  "(0::nat) < 1 \<and> 1 < length (tr_speakers (transcriptionResult binary64 sixSegmentsData))
   \<and> tr_speakers (transcriptionResult binary64 sixSegmentsData)
       = [str ''Speaker 1'', str ''Speaker 2'']
   \<and> first_index (List.map_filter seg_speaker (tr_segments (transcriptionResult binary64 sixSegmentsData)))
                   (tr_speakers (transcriptionResult binary64 sixSegmentsData) ! 0)
       < first_index (List.map_filter seg_speaker (tr_segments (transcriptionResult binary64 sixSegmentsData)))
                     (tr_speakers (transcriptionResult binary64 sixSegmentsData) ! 1)"
proof -
  have sp: "tr_speakers (transcriptionResult binary64 sixSegmentsData)
              = [str ''Speaker 1'', str ''Speaker 2'']"
    by (simp add: transcriptionResult_def sixSegmentsData_def sixSegments_processed Let_def
        identifySpeakers_def identifySpeakers_step_def set_add_def str_def)
  have h: "(0::nat) < 1 \<and> 1 < length (tr_speakers (transcriptionResult binary64 sixSegmentsData))"
    by (simp add: sp)
  have ord:
    "first_index (List.map_filter seg_speaker (tr_segments (transcriptionResult binary64 sixSegmentsData)))
                 (tr_speakers (transcriptionResult binary64 sixSegmentsData) ! 0)
       < first_index (List.map_filter seg_speaker (tr_segments (transcriptionResult binary64 sixSegmentsData)))
                     (tr_speakers (transcriptionResult binary64 sixSegmentsData) ! 1)"
    using h speakers_first_appearance [of binary64 sixSegmentsData 0 1] by blast
  show ?thesis using h sp ord by blast
qed

section \<open>Properties of the summary service\<close>

lemma neutral_valid: "str ''neutral'' \<in> set validSentiments"
  by (simp add: validSentiments_def)

lemma validateSentiment_valid: "validateSentiment v \<in> set validSentiments"
  by (auto simp: validateSentiment_def neutral_valid split: option.splits json.splits)

lemma sentimentMatch_valid: "sentimentMatch s = Some word \<Longrightarrow> word \<in> set validSentiments"
  by (induction s) (auto simp: validSentiments_def split: if_splits)

lemma parseTextLine_sentiment:
  "ts_sentiment st \<in> set validSentiments \<Longrightarrow>
   ts_sentiment (parseTextLine unicodeLower st line) \<in> set validSentiments"
  by (auto simp: parseTextLine_def Let_def sentimentMatch_valid split: option.splits)

lemma foldl_parseTextLine_sentiment:
  "ts_sentiment st \<in> set validSentiments \<Longrightarrow>
   ts_sentiment (foldl (parseTextLine unicodeLower) st lines) \<in> set validSentiments"
  by (induction lines arbitrary: st) (simp_all add: parseTextLine_sentiment)

lemma parseTextResponse_sentiment:
  "sentiment (parseTextResponse unicodeLower content speakers) \<in> set validSentiments"
  by (simp add: parseTextResponse_def Let_def foldl_parseTextLine_sentiment initialSections_def neutral_valid)

lemma parseSummaryResponse_try_sentiment:
  "parseSummaryResponse_try JSON_parse content speakers = Inr (Some result) \<Longrightarrow>
   sentiment result \<in> set validSentiments"
  by (auto simp: parseSummaryResponse_try_def validateSentiment_valid
      split: option.splits sum.splits json.splits)

lemma parseSummaryResponse_returns:
  "\<exists>result. parseSummaryResponse JSON_parse unicodeLower content speakers = Inr result
     \<and> sentiment result \<in> set validSentiments"
  by (auto simp: parseSummaryResponse_def parseTextResponse_sentiment
      dest: parseSummaryResponse_try_sentiment split: sum.splits option.splits)

lemma parseSummaryResponse_object:
  "jsonMatch content = Some matched \<Longrightarrow> JSON_parse matched = Inr (JObject props) \<Longrightarrow>
   parseSummaryResponse JSON_parse unicodeLower content speakers =
     Inr \<lparr>summary = or_json (map_of props (str ''summary''))
                       (JString (str ''Summary could not be generated.'')),
          keyPoints = arrayOr (map_of props (str ''keyPoints'')) [],
          topics = arrayOr (map_of props (str ''topics'')) [],
          sentiment = validateSentiment (map_of props (str ''sentiment'')),
          actionItems = arrayOr (map_of props (str ''actionItems'')) [],
          participants = arrayOr (map_of props (str ''participants'')) (map JString speakers)\<rparr>"
  by (simp add: parseSummaryResponse_def parseSummaryResponse_try_def property_def)

lemma arrayOr_default: "(\<forall>xs. v \<noteq> Some (JArray xs)) \<Longrightarrow> arrayOr v d = d"
  by (auto simp: arrayOr_def split: option.splits json.splits)

lemma validateSentiment_neutral:
  "v \<notin> Some ` JString ` set validSentiments \<Longrightarrow> validateSentiment v = str ''neutral''"
  by (auto simp: validateSentiment_def split: option.splits json.splits)

text \<open>
  Claim C1: for every content string (empty or not), every \<open>JSON.parse\<close> and every
  Unicode case table, \<open>parseSummaryResponse\<close> returns a result and does not raise; its
  sentiment is one of the four valid words. On the JSON path (a brace block that parses
  to an object) a sentiment that is absent or is not one of the four strings gives
  \<open>neutral\<close>, a \<open>keyPoints\<close>, \<open>topics\<close> or \<open>actionItems\<close> that is absent or not an
  array gives the empty sequence, and an absent \<open>participants\<close> gives the caller's
  speakers.
\<close>

theorem parseSummaryResponse_total:
  "(\<exists>result. parseSummaryResponse JSON_parse unicodeLower content speakers = Inr result
      \<and> sentiment result \<in> set validSentiments)
   \<and> (jsonMatch content = Some matched \<and> JSON_parse matched = Inr (JObject props) \<longrightarrow>
        (\<exists>result. parseSummaryResponse JSON_parse unicodeLower content speakers = Inr result
           \<and> (map_of props (str ''sentiment'') \<notin> Some ` JString ` set validSentiments
                \<longrightarrow> sentiment result = str ''neutral'')
           \<and> ((\<forall>xs. map_of props (str ''keyPoints'') \<noteq> Some (JArray xs)) \<longrightarrow> keyPoints result = [])
           \<and> ((\<forall>xs. map_of props (str ''topics'') \<noteq> Some (JArray xs)) \<longrightarrow> topics result = [])
           \<and> ((\<forall>xs. map_of props (str ''actionItems'') \<noteq> Some (JArray xs))
                \<longrightarrow> actionItems result = [])
           \<and> (map_of props (str ''participants'') = None
                \<longrightarrow> participants result = map JString speakers)))"
proof (intro conjI impI)
  show "\<exists>result. parseSummaryResponse JSON_parse unicodeLower content speakers = Inr result
      \<and> sentiment result \<in> set validSentiments"
    by (rule parseSummaryResponse_returns)
next
  assume "jsonMatch content = Some matched \<and> JSON_parse matched = Inr (JObject props)"
  then have "parseSummaryResponse JSON_parse unicodeLower content speakers =
     Inr \<lparr>summary = or_json (map_of props (str ''summary''))
                       (JString (str ''Summary could not be generated.'')),
          keyPoints = arrayOr (map_of props (str ''keyPoints'')) [],
          topics = arrayOr (map_of props (str ''topics'')) [],
          sentiment = validateSentiment (map_of props (str ''sentiment'')),
          actionItems = arrayOr (map_of props (str ''actionItems'')) [],
          participants = arrayOr (map_of props (str ''participants'')) (map JString speakers)\<rparr>"
    by (simp add: parseSummaryResponse_object)
  then show "\<exists>result. parseSummaryResponse JSON_parse unicodeLower content speakers = Inr result
           \<and> (map_of props (str ''sentiment'') \<notin> Some ` JString ` set validSentiments
                \<longrightarrow> sentiment result = str ''neutral'')
           \<and> ((\<forall>xs. map_of props (str ''keyPoints'') \<noteq> Some (JArray xs)) \<longrightarrow> keyPoints result = [])
           \<and> ((\<forall>xs. map_of props (str ''topics'') \<noteq> Some (JArray xs)) \<longrightarrow> topics result = [])
           \<and> ((\<forall>xs. map_of props (str ''actionItems'') \<noteq> Some (JArray xs))
                \<longrightarrow> actionItems result = [])
           \<and> (map_of props (str ''participants'') = None
                \<longrightarrow> participants result = map JString speakers)"
    by (simp add: arrayOr_default validateSentiment_neutral)
qed

theorem parseSummaryResponse_total_witness:
  "jsonMatch (str ''{}'') = Some (str ''{}'')
   \<and> (\<exists>result. parseSummaryResponse (\<lambda>matched. Inr (JObject [])) (\<lambda>s. s) (str ''{}'')
                   [str ''Speaker 1''] = Inr result
         \<and> sentiment result = str ''neutral''
         \<and> keyPoints result = [] \<and> topics result = [] \<and> actionItems result = []
         \<and> participants result = [JString (str ''Speaker 1'')])"
proof -
  have h: "jsonMatch (str ''{}'') = Some (str ''{}'')"
    by (simp add: jsonMatch_def str_def)
  show ?thesis
    using h parseSummaryResponse_total [of "\<lambda>matched. Inr (JObject [])" "\<lambda>s. s" "str ''{}''" "[str ''Speaker 1'']"
                   "str ''{}''" "[]"]
    by auto
qed

text \<open>
  Claim C5: the answer \<open>no json here at all\<close> has no brace block and no section
  marker, so the result holds the three placeholders, the sentiment \<open>neutral\<close>, no
  action items and the caller's speakers.
\<close>

theorem parseSummaryResponse_no_json:
  "parseSummaryResponse JSON_parse unicodeLower (str ''no json here at all'') speakers
   = Inr \<lparr>summary = JString (str ''Summary could not be generated.''),
          keyPoints = [JString (str ''Key points could not be extracted.'')],
          topics = [JString (str ''Topics could not be identified.'')],
          sentiment = str ''neutral'',
          actionItems = [],
          participants = map JString speakers\<rparr>"
  by (simp add: parseSummaryResponse_def parseSummaryResponse_try_def jsonMatch_def str_def
      parseTextResponse_def trim_def isWhiteSpace_def parseTextLine_def toLowerCase_def asciiLower_def
      initialSections_def Let_def)

section \<open>Properties of the audio service\<close>

lemma le_bytes16: "(v::nat) mod 256 + 256 * (v div 256 mod 256) = v mod 65536"
  using mod_mult2_eq [of v 256 256] by simp

lemma le_bytes32:
  "(v::nat) mod 256 + 256 * (v div 256 mod 256) + 65536 * (v div 65536 mod 256)
      + 16777216 * (v div 16777216 mod 256) = v mod 4294967296"
proof -
  have a: "v mod 4294967296 = 65536 * (v div 65536 mod 65536) + v mod 65536"
    using mod_mult2_eq [of v 65536 65536] by simp
  have b: "v div 65536 mod 65536 = 256 * (v div 65536 div 256 mod 256) + v div 65536 mod 256"
    using mod_mult2_eq [of "v div 65536" 256 256] by simp
  have c: "v div 65536 div 256 = v div 16777216"
    by (simp add: div_mult2_eq [symmetric])
  show ?thesis using le_bytes16 [of v] by (simp add: a b c)
qed

lemma unat_byte: "unat (of_nat v :: byte) = v mod 256"
  by (simp add: unat_of_nat)

lemma length_setters [simp]:
  "length (setUint8 view offset v) = length view"
  "length (setUint16 view offset v) = length view"
  "length (setUint32 view offset v) = length view"
  "length (setInt16 view offset x) = length view"
  by (simp_all add: setUint8_def setUint16_def setUint32_def setInt16_def)

lemma length_writeString [simp]: "length (writeString view offset s) = length view"
  by (induction s arbitrary: view offset) simp_all

lemma length_wavHeader [simp]: "length (wavHeader buffer view) = length view"
  by (simp add: wavHeader_def Let_def)

lemma wavHeader_nth:
  assumes "44 \<le> length view"
  shows "wavHeader buffer view ! 4 = of_nat (36 + ab_length buffer * ab_numberOfChannels buffer * 2)"
    "wavHeader buffer view ! 5 = of_nat ((36 + ab_length buffer * ab_numberOfChannels buffer * 2) div 256)"
    "wavHeader buffer view ! 6 = of_nat ((36 + ab_length buffer * ab_numberOfChannels buffer * 2) div 65536)"
    "wavHeader buffer view ! 7 = of_nat ((36 + ab_length buffer * ab_numberOfChannels buffer * 2) div 16777216)"
    "wavHeader buffer view ! 8 = 0x57" "wavHeader buffer view ! 9 = 0x41"
    "wavHeader buffer view ! 10 = 0x56" "wavHeader buffer view ! 11 = 0x45"
    "wavHeader buffer view ! 12 = 0x66" "wavHeader buffer view ! 13 = 0x6D"
    "wavHeader buffer view ! 14 = 0x74" "wavHeader buffer view ! 15 = 0x20"
    "wavHeader buffer view ! 16 = of_nat 16" "wavHeader buffer view ! 17 = of_nat (16 div 256)"
    "wavHeader buffer view ! 18 = of_nat (16 div 65536)" "wavHeader buffer view ! 19 = of_nat (16 div 16777216)"
    "wavHeader buffer view ! 20 = of_nat 1" "wavHeader buffer view ! 21 = of_nat (1 div 256)"
    "wavHeader buffer view ! 22 = of_nat (ab_numberOfChannels buffer)"
    "wavHeader buffer view ! 23 = of_nat (ab_numberOfChannels buffer div 256)"
    "wavHeader buffer view ! 24 = of_nat (ab_sampleRate buffer)"
    "wavHeader buffer view ! 25 = of_nat (ab_sampleRate buffer div 256)"
    "wavHeader buffer view ! 26 = of_nat (ab_sampleRate buffer div 65536)"
    "wavHeader buffer view ! 27 = of_nat (ab_sampleRate buffer div 16777216)"
    "wavHeader buffer view ! 28 = of_nat (ab_sampleRate buffer * ab_numberOfChannels buffer * 2)"
    "wavHeader buffer view ! 29 = of_nat (ab_sampleRate buffer * ab_numberOfChannels buffer * 2 div 256)"
    "wavHeader buffer view ! 30 = of_nat (ab_sampleRate buffer * ab_numberOfChannels buffer * 2 div 65536)"
    "wavHeader buffer view ! 31 = of_nat (ab_sampleRate buffer * ab_numberOfChannels buffer * 2 div 16777216)"
    "wavHeader buffer view ! 32 = of_nat (ab_numberOfChannels buffer * 2)"
    "wavHeader buffer view ! 33 = of_nat (ab_numberOfChannels buffer * 2 div 256)"
    "wavHeader buffer view ! 34 = of_nat 16" "wavHeader buffer view ! 35 = of_nat (16 div 256)"
    "wavHeader buffer view ! 36 = 0x64" "wavHeader buffer view ! 37 = 0x61"
    "wavHeader buffer view ! 38 = 0x74" "wavHeader buffer view ! 39 = 0x61"
    "wavHeader buffer view ! 40 = of_nat (ab_length buffer * ab_numberOfChannels buffer * 2)"
    "wavHeader buffer view ! 41 = of_nat (ab_length buffer * ab_numberOfChannels buffer * 2 div 256)"
    "wavHeader buffer view ! 42 = of_nat (ab_length buffer * ab_numberOfChannels buffer * 2 div 65536)"
    "wavHeader buffer view ! 43 = of_nat (ab_length buffer * ab_numberOfChannels buffer * 2 div 16777216)"
  using assms
  by (simp_all add: wavHeader_def Let_def str_def setUint8_def setUint16_def setUint32_def)

lemma wavHeader_riff:
  assumes "44 \<le> length view"
  shows "wavHeader buffer view ! 0 = 0x52" "wavHeader buffer view ! 1 = 0x49"
    "wavHeader buffer view ! 2 = 0x46" "wavHeader buffer view ! 3 = 0x46"
proof -
  have l: "0 < length view" "Suc 0 < length view" "Suc (Suc 0) < length view"
    "Suc (Suc (Suc 0)) < length view"
    using assms by linarith+
  show "wavHeader buffer view ! 0 = 0x52" "wavHeader buffer view ! 1 = 0x49"
    "wavHeader buffer view ! 2 = 0x46" "wavHeader buffer view ! 3 = 0x46"
    using assms l
    by (simp_all add: wavHeader_def Let_def str_def setUint8_def setUint16_def setUint32_def
        flip: numeral_2_eq_2 numeral_3_eq_3)
qed

lemma getUint32_bytes:
  "bytes ! offset = of_nat v \<Longrightarrow> bytes ! (offset + 1) = of_nat (v div 256) \<Longrightarrow>
   bytes ! (offset + 2) = of_nat (v div 65536) \<Longrightarrow> bytes ! (offset + 3) = of_nat (v div 16777216) \<Longrightarrow>
   getUint32 bytes offset = v mod 4294967296"
  by (simp add: getUint32_def unat_byte le_bytes32)

lemma getUint16_bytes:
  "bytes ! offset = of_nat v \<Longrightarrow> bytes ! (offset + 1) = of_nat (v div 256) \<Longrightarrow>
   getUint16 bytes offset = v mod 65536"
  by (simp add: getUint16_def unat_byte le_bytes16)

lemma wavHeader_fields:
  assumes "44 \<le> length view"
  shows "getUint32 (wavHeader buffer view) 4
           = (36 + ab_length buffer * ab_numberOfChannels buffer * 2) mod 4294967296"
    "getUint32 (wavHeader buffer view) 16 = 16"
    "getUint16 (wavHeader buffer view) 20 = 1"
    "getUint16 (wavHeader buffer view) 22 = ab_numberOfChannels buffer mod 65536"
    "getUint32 (wavHeader buffer view) 24 = ab_sampleRate buffer mod 4294967296"
    "getUint32 (wavHeader buffer view) 28
           = (ab_sampleRate buffer * ab_numberOfChannels buffer * 2) mod 4294967296"
    "getUint16 (wavHeader buffer view) 32 = (ab_numberOfChannels buffer * 2) mod 65536"
    "getUint16 (wavHeader buffer view) 34 = 16"
    "getUint32 (wavHeader buffer view) 40
           = (ab_length buffer * ab_numberOfChannels buffer * 2) mod 4294967296"
proof -
  note h = wavHeader_nth [OF assms, of buffer]
  show "getUint32 (wavHeader buffer view) 4
           = (36 + ab_length buffer * ab_numberOfChannels buffer * 2) mod 4294967296"
    by (rule getUint32_bytes) (simp_all add: h)
  show "getUint32 (wavHeader buffer view) 16 = 16"
    using getUint32_bytes [of "wavHeader buffer view" 16 16] by (simp add: h)
  show "getUint16 (wavHeader buffer view) 20 = 1"
    using getUint16_bytes [of "wavHeader buffer view" 20 1] by (simp add: h)
  show "getUint16 (wavHeader buffer view) 22 = ab_numberOfChannels buffer mod 65536"
    by (rule getUint16_bytes) (simp_all add: h)
  show "getUint32 (wavHeader buffer view) 24 = ab_sampleRate buffer mod 4294967296"
    by (rule getUint32_bytes) (simp_all add: h)
  show "getUint32 (wavHeader buffer view) 28
           = (ab_sampleRate buffer * ab_numberOfChannels buffer * 2) mod 4294967296"
    by (rule getUint32_bytes) (simp_all add: h)
  show "getUint16 (wavHeader buffer view) 32 = (ab_numberOfChannels buffer * 2) mod 65536"
    by (rule getUint16_bytes) (simp_all add: h)
  show "getUint16 (wavHeader buffer view) 34 = 16"
    using getUint16_bytes [of "wavHeader buffer view" 34 16] by (simp add: h)
  show "getUint32 (wavHeader buffer view) 40
           = (ab_length buffer * ab_numberOfChannels buffer * 2) mod 4294967296"
    by (rule getUint32_bytes) (simp_all add: h)
qed


lemma writer_length:
  "length (fst (foldl (\<lambda>(view, offset) x. (setInt16 view offset x, offset + 2)) (view, off) xs))
     = length view"
  by (induction xs arbitrary: view off) simp_all

lemma writer_before:
  "p < off \<Longrightarrow>
   fst (foldl (\<lambda>(view, offset) x. (setInt16 view offset x, offset + 2)) (view, off) xs) ! p
     = view ! p"
proof (induction xs arbitrary: view off)
  case Nil
  then show ?case by simp
next
  case (Cons x xs)
  have "fst (foldl (\<lambda>(view, offset) x. (setInt16 view offset x, offset + 2))
               (setInt16 view off x, off + 2) xs) ! p = setInt16 view off x ! p"
    using Cons.prems by (intro Cons.IH) simp
  then show ?case using Cons.prems by (simp add: setInt16_def)
qed

lemma writer_nth:
  "j < length xs \<Longrightarrow> off + 2 * length xs \<le> length view \<Longrightarrow>
   fst (foldl (\<lambda>(view, offset) x. (setInt16 view offset x, offset + 2)) (view, off) xs) ! (off + 2 * j)
     = of_int (truncateNumber (xs ! j))
   \<and> fst (foldl (\<lambda>(view, offset) x. (setInt16 view offset x, offset + 2)) (view, off) xs) ! (off + 2 * j + 1)
     = of_int (truncateNumber (xs ! j) div 256)"
proof (induction xs arbitrary: view off j)
  case Nil
  then show ?case by simp
next
  case (Cons x xs)
  show ?case
  proof (cases j)
    case 0
    have "fst (foldl (\<lambda>(view, offset) x. (setInt16 view offset x, offset + 2))
               (setInt16 view off x, off + 2) xs) ! off = setInt16 view off x ! off"
         "fst (foldl (\<lambda>(view, offset) x. (setInt16 view offset x, offset + 2))
               (setInt16 view off x, off + 2) xs) ! (off + 1) = setInt16 view off x ! (off + 1)"
      by (rule writer_before, simp)+
    then show ?thesis using 0 Cons.prems by (simp add: setInt16_def)
  next
    case (Suc j')
    have "fst (foldl (\<lambda>(view, offset) x. (setInt16 view offset x, offset + 2))
               (setInt16 view off x, off + 2) xs) ! (off + 2 + 2 * j') = of_int (truncateNumber (xs ! j'))
       \<and> fst (foldl (\<lambda>(view, offset) x. (setInt16 view offset x, offset + 2))
               (setInt16 view off x, off + 2) xs) ! (off + 2 + 2 * j' + 1) = of_int (truncateNumber (xs ! j') div 256)"
      using Cons.prems Suc by (intro Cons.IH) simp_all
    then show ?thesis using Suc by (simp add: add.assoc)
  qed
qed

lemma frames_as_samples:
  "foldl (writeFrame rnd buffer) st frames
     = foldl (\<lambda>(view, offset) x. (setInt16 view offset x, offset + 2)) st
         (concat (map (\<lambda>i. map (scaledSample rnd buffer i) [0..<ab_numberOfChannels buffer]) frames))"
proof (induction frames arbitrary: st)
  case Nil
  then show ?case by simp
next
  case (Cons i frames)
  have "writeFrame rnd buffer st i
          = foldl (\<lambda>(view, offset) x. (setInt16 view offset x, offset + 2)) st
              (map (scaledSample rnd buffer i) [0..<ab_numberOfChannels buffer])"
    by (simp add: writeFrame_def writeSample_def foldl_map split_def)
  then show ?case using Cons.IH by simp
qed

lemma length_interleaved:
  "length (concat (map (\<lambda>i. map (f i) [0..<c]) [0..<n])) = n * c"
  by (induction n) simp_all

lemma nth_interleaved:
  "i < n \<Longrightarrow> ch < c \<Longrightarrow> concat (map (\<lambda>i. map (f i) [0..<c]) [0..<n]) ! (i * c + ch) = f i ch"
proof (induction n)
  case 0
  then show ?case by simp
next
  case (Suc n)
  show ?case
  proof (cases "i < n")
    case True
    then have "i * c + ch < n * c"
    proof -
      have "Suc i * c \<le> n * c" using True by (intro mult_le_mono1) simp
      then show ?thesis using Suc.prems(2) by simp
    qed
    then show ?thesis using Suc True by (simp add: nth_append length_interleaved)
  next
    case False
    then have "i = n" using Suc.prems by simp
    then show ?thesis using Suc.prems by (simp add: nth_append length_interleaved)
  qed
qed


lemma audioBufferToWav_as_samples:
  "audioBufferToWav rnd buffer =
     fst (foldl (\<lambda>(view, offset) x. (setInt16 view offset x, offset + 2))
            (wavHeader buffer (replicate (44 + ab_length buffer * ab_numberOfChannels buffer * 2) 0), 44)
            (concat (map (\<lambda>i. map (scaledSample rnd buffer i) [0..<ab_numberOfChannels buffer])
                         [0..<ab_length buffer])))"
  by (simp add: audioBufferToWav_def Let_def frames_as_samples)

lemma length_audioBufferToWav:
  "length (audioBufferToWav rnd buffer) = 44 + ab_length buffer * ab_numberOfChannels buffer * 2"
  by (simp only: audioBufferToWav_as_samples writer_length length_wavHeader length_replicate)

lemma audioBufferToWav_header_nth:
  "p < 44 \<Longrightarrow>
   audioBufferToWav rnd buffer ! p
     = wavHeader buffer (replicate (44 + ab_length buffer * ab_numberOfChannels buffer * 2) 0) ! p"
  by (simp only: audioBufferToWav_as_samples writer_before)

lemma audioBufferToWav_getUint32:
  "p + 3 < 44 \<Longrightarrow>
   getUint32 (audioBufferToWav rnd buffer) p
     = getUint32 (wavHeader buffer (replicate (44 + ab_length buffer * ab_numberOfChannels buffer * 2) 0)) p"
  by (simp add: getUint32_def audioBufferToWav_header_nth)

lemma audioBufferToWav_getUint16:
  "p + 1 < 44 \<Longrightarrow>
   getUint16 (audioBufferToWav rnd buffer) p
     = getUint16 (wavHeader buffer (replicate (44 + ab_length buffer * ab_numberOfChannels buffer * 2) 0)) p"
  by (simp add: getUint16_def audioBufferToWav_header_nth)

lemma audioBufferToWav_fields:
  "getUint32 (audioBufferToWav rnd buffer) 4
     = (36 + ab_length buffer * ab_numberOfChannels buffer * 2) mod 4294967296"
  "getUint32 (audioBufferToWav rnd buffer) 16 = 16"
  "getUint16 (audioBufferToWav rnd buffer) 20 = 1"
  "getUint16 (audioBufferToWav rnd buffer) 22 = ab_numberOfChannels buffer mod 65536"
  "getUint32 (audioBufferToWav rnd buffer) 24 = ab_sampleRate buffer mod 4294967296"
  "getUint32 (audioBufferToWav rnd buffer) 28
     = (ab_sampleRate buffer * ab_numberOfChannels buffer * 2) mod 4294967296"
  "getUint16 (audioBufferToWav rnd buffer) 32 = (ab_numberOfChannels buffer * 2) mod 65536"
  "getUint16 (audioBufferToWav rnd buffer) 34 = 16"
  "getUint32 (audioBufferToWav rnd buffer) 40
     = (ab_length buffer * ab_numberOfChannels buffer * 2) mod 4294967296"
  by (simp_all add: audioBufferToWav_getUint32 audioBufferToWav_getUint16 wavHeader_fields)

lemma int_le_bytes16: "(k::int) mod 256 + 256 * (k div 256 mod 256) = k mod 65536"
  using zmod_zmult2_eq [of 256 k 256] by simp

lemma getUint16_int_bytes:
  assumes "bytes ! offset = of_int k" "bytes ! (offset + 1) = of_int (k div 256)"
  shows "int (getUint16 bytes offset) = k mod 65536"
proof -
  have u: "uint (word_of_int m :: byte) = m mod 256" for m
    by (simp add: uint_word_of_int)
  have "int (getUint16 bytes offset) = uint (bytes ! offset) + 256 * uint (bytes ! (offset + 1))"
    by (simp add: getUint16_def)
  also have "\<dots> = k mod 256 + 256 * (k div 256 mod 256)"
    by (simp only: assms u)
  also have "\<dots> = k mod 65536"
    by (rule int_le_bytes16)
  finally show ?thesis .
qed

lemma scaledSample_wellFormed:
  assumes "wellFormed buffer" "i < ab_length buffer" "channel < ab_numberOfChannels buffer"
  shows "scaledSample rnd buffer i channel =
     (let sample = max (- 1) (min 1 (ab_channelData buffer ! channel ! i))
      in if sample < 0 then rnd (sample * 32768) else rnd (sample * 32767))"
proof -
  have c: "channel < length (ab_channelData buffer)" using assms by (simp add: wellFormed_def)
  then have "ab_channelData buffer ! channel \<in> set (ab_channelData buffer)" by simp
  then have "length (ab_channelData buffer ! channel) = ab_length buffer"
    using assms(1) by (simp add: wellFormed_def list_all_iff)
  then show ?thesis using c assms(2) by (simp add: scaledSample_def)
qed

lemma audioBufferToWav_sample:
  assumes "i < ab_length buffer" "channel < ab_numberOfChannels buffer"
  shows "int (getUint16 (audioBufferToWav rnd buffer) (44 + 2 * (i * ab_numberOfChannels buffer + channel)))
           = truncateNumber (scaledSample rnd buffer i channel) mod 65536"
proof -
  let ?c = "ab_numberOfChannels buffer" and ?n = "ab_length buffer"
  let ?xs = "concat (map (\<lambda>i. map (scaledSample rnd buffer i) [0..<?c]) [0..<?n])"
  let ?hdr = "wavHeader buffer (replicate (44 + ?n * ?c * 2) 0)"
  have len: "length ?xs = ?n * ?c" by (rule length_interleaved)
  have "Suc i * ?c \<le> ?n * ?c" using assms(1) by (intro mult_le_mono1) simp
  then have j: "i * ?c + channel < length ?xs" using assms(2) len by simp
  have fits: "44 + 2 * length ?xs \<le> length ?hdr" by (simp add: len)
  have x: "?xs ! (i * ?c + channel) = scaledSample rnd buffer i channel"
    using assms by (rule nth_interleaved)
  from writer_nth [OF j fits]
  have "audioBufferToWav rnd buffer ! (44 + 2 * (i * ?c + channel))
          = of_int (truncateNumber (scaledSample rnd buffer i channel))"
       "audioBufferToWav rnd buffer ! (44 + 2 * (i * ?c + channel) + 1)
          = of_int (truncateNumber (scaledSample rnd buffer i channel) div 256)"
    by (simp_all only: audioBufferToWav_as_samples x)
  then show ?thesis by (rule getUint16_int_bytes)
qed

lemma truncate_exact_range:
  assumes "- 1 \<le> s" "s \<le> 1"
  shows "- 32768 \<le> truncateNumber (if s < 0 then s * 32768 else s * 32767)
       \<and> truncateNumber (if s < 0 then s * 32768 else s * 32767) \<le> 32767"
proof (cases "s < 0")
  case True
  then have b: "- 32768 \<le> s * 32768" "s * 32768 < 0" using assms by simp_all
  have "\<lceil>of_int (- 32768) :: rat\<rceil> \<le> \<lceil>s * 32768\<rceil>" using b(1) by (intro ceiling_mono) simp
  moreover have "\<lceil>s * 32768\<rceil> \<le> \<lceil>of_int 0 :: rat\<rceil>" using b(2) by (intro ceiling_mono) simp
  ultimately have "- 32768 \<le> \<lceil>s * 32768\<rceil>" "\<lceil>s * 32768\<rceil> \<le> 0"
    by (simp_all only: ceiling_of_int)
  moreover have "truncateNumber (s * 32768) = \<lceil>s * 32768\<rceil>" using b(2) by (simp add: truncateNumber_def)
  ultimately show ?thesis using True by simp
next
  case False
  then have b: "0 \<le> s * 32767" "s * 32767 \<le> 32767" using assms by simp_all
  have "\<lfloor>of_int 0 :: rat\<rfloor> \<le> \<lfloor>s * 32767\<rfloor>" using b(1) by (intro floor_mono) simp
  moreover have "\<lfloor>s * 32767\<rfloor> \<le> \<lfloor>of_int 32767 :: rat\<rfloor>" using b(2) by (intro floor_mono) simp
  ultimately have "0 \<le> \<lfloor>s * 32767\<rfloor>" "\<lfloor>s * 32767\<rfloor> \<le> 32767"
    by (simp_all only: floor_of_int)
  moreover have "truncateNumber (s * 32767) = \<lfloor>s * 32767\<rfloor>" using b(1) by (simp add: truncateNumber_def)
  ultimately show ?thesis using False by simp
qed


lemma audioBufferToWav_channel_byte:
  "audioBufferToWav rnd buffer ! 22 = of_nat (ab_numberOfChannels buffer)"
  by (simp add: audioBufferToWav_header_nth wavHeader_nth)

text \<open>
  Claim C4: the encoding of a buffer of \<open>n\<close> frames, \<open>c\<close> channels and sample rate \<open>r\<close>
  has \<open>44 + n * c * 2\<close> bytes; the little-endian fields at bytes 4, 20, 22, 24, 28, 32, 34
  and 40 hold \<open>36 + n * c * 2\<close>, 1, \<open>c\<close>, \<open>r\<close>, \<open>r * c * 2\<close>, \<open>c * 2\<close>, 16 and
  \<open>n * c * 2\<close>, each in the width of its field (modulo \<open>2 ^ 32\<close> or \<open>2 ^ 16\<close>); the two
  bytes of frame \<open>i\<close>, channel \<open>ch\<close> at offset \<open>44 + 2 * (i * c + ch)\<close> hold the
  sample clamped to \<open>[-1, 1]\<close>, scaled by 32768 when negative and by 32767 otherwise and
  truncated, which lies in \<open>[-32768, 32767]\<close>; a mono buffer at 16000 Hz with 90000
  data bytes gives \<open>44 + 90000\<close> bytes with byte 22 equal to 1.
\<close>

theorem audioBufferToWav_layout:
  "length (audioBufferToWav rnd buffer) = 44 + ab_length buffer * ab_numberOfChannels buffer * 2
   \<and> getUint32 (audioBufferToWav rnd buffer) 4
       = (36 + ab_length buffer * ab_numberOfChannels buffer * 2) mod 2 ^ 32
   \<and> getUint16 (audioBufferToWav rnd buffer) 20 = 1
   \<and> getUint16 (audioBufferToWav rnd buffer) 22 = ab_numberOfChannels buffer mod 2 ^ 16
   \<and> getUint32 (audioBufferToWav rnd buffer) 24 = ab_sampleRate buffer mod 2 ^ 32
   \<and> getUint32 (audioBufferToWav rnd buffer) 28
       = (ab_sampleRate buffer * ab_numberOfChannels buffer * 2) mod 2 ^ 32
   \<and> getUint16 (audioBufferToWav rnd buffer) 32 = (ab_numberOfChannels buffer * 2) mod 2 ^ 16
   \<and> getUint16 (audioBufferToWav rnd buffer) 34 = 16
   \<and> getUint32 (audioBufferToWav rnd buffer) 40
       = (ab_length buffer * ab_numberOfChannels buffer * 2) mod 2 ^ 32
   \<and> (wellFormed buffer \<and> i < ab_length buffer \<and> channel < ab_numberOfChannels buffer \<longrightarrow>
        int (getUint16 (audioBufferToWav rnd buffer)
               (44 + 2 * (i * ab_numberOfChannels buffer + channel)))
          = truncateNumber
              (let sample = max (- 1) (min 1 (ab_channelData buffer ! channel ! i))
               in if sample < 0 then rnd (sample * 32768) else rnd (sample * 32767)) mod 2 ^ 16
        \<and> - 32768 \<le> truncateNumber
              (let sample = max (- 1) (min 1 (ab_channelData buffer ! channel ! i))
               in if sample < 0 then sample * 32768 else sample * 32767)
        \<and> truncateNumber
              (let sample = max (- 1) (min 1 (ab_channelData buffer ! channel ! i))
               in if sample < 0 then sample * 32768 else sample * 32767) \<le> 32767)
   \<and> (ab_numberOfChannels buffer = 1 \<and> ab_sampleRate buffer = 16000
        \<and> ab_length buffer * ab_numberOfChannels buffer * 2 = 90000 \<longrightarrow>
        length (audioBufferToWav rnd buffer) = 44 + 90000
        \<and> audioBufferToWav rnd buffer ! 22 = 1)"
proof -
  have sample: "int (getUint16 (audioBufferToWav rnd buffer)
               (44 + 2 * (i * ab_numberOfChannels buffer + channel)))
          = truncateNumber
              (let sample = max (- 1) (min 1 (ab_channelData buffer ! channel ! i))
               in if sample < 0 then rnd (sample * 32768) else rnd (sample * 32767)) mod 65536"
    if "wellFormed buffer" "i < ab_length buffer" "channel < ab_numberOfChannels buffer"
    using audioBufferToWav_sample [OF that(2,3), of rnd]
    by (simp only: scaledSample_wellFormed [OF that, of rnd])
  have range: "- 32768 \<le> truncateNumber
              (let sample = max (- 1) (min 1 (ab_channelData buffer ! channel ! i))
               in if sample < 0 then sample * 32768 else sample * 32767)
        \<and> truncateNumber
              (let sample = max (- 1) (min 1 (ab_channelData buffer ! channel ! i))
               in if sample < 0 then sample * 32768 else sample * 32767) \<le> 32767"
    unfolding Let_def by (rule truncate_exact_range) simp_all
  have mono: "length (audioBufferToWav rnd buffer) = 44 + 90000 \<and> audioBufferToWav rnd buffer ! 22 = 1"
    if "ab_numberOfChannels buffer = 1" "ab_length buffer * ab_numberOfChannels buffer * 2 = 90000"
    using that by (simp add: length_audioBufferToWav audioBufferToWav_channel_byte)
  have p: "(2::nat) ^ 32 = 4294967296" "(2::nat) ^ 16 = 65536" "(2::int) ^ 16 = 65536"
    by simp_all
  show ?thesis
    unfolding p
    using sample range mono length_audioBufferToWav [of rnd buffer]
      audioBufferToWav_fields [of rnd buffer]
    by blast
qed

theorem audioBufferToWav_layout_witness:
  "wellFormed monoBuffer \<and> 0 < ab_length monoBuffer \<and> 0 < ab_numberOfChannels monoBuffer
   \<and> ab_numberOfChannels monoBuffer = 1 \<and> ab_sampleRate monoBuffer = 16000
   \<and> ab_length monoBuffer * ab_numberOfChannels monoBuffer * 2 = 90000
   \<and> length (audioBufferToWav (\<lambda>x. x) monoBuffer) = 90044
   \<and> audioBufferToWav (\<lambda>x. x) monoBuffer ! 22 = 1
   \<and> int (getUint16 (audioBufferToWav (\<lambda>x. x) monoBuffer) 44) = 16383"
proof -
  have h: "wellFormed monoBuffer \<and> 0 < ab_length monoBuffer \<and> 0 < ab_numberOfChannels monoBuffer"
          "ab_numberOfChannels monoBuffer = 1 \<and> ab_sampleRate monoBuffer = 16000
           \<and> ab_length monoBuffer * ab_numberOfChannels monoBuffer * 2 = 90000"
    by (simp_all add: monoBuffer_def wellFormed_def)
  have s: "ab_channelData monoBuffer ! 0 ! 0 = 1 / 2"
    by (simp add: monoBuffer_def)
  have t: "truncateNumber (32767 / 2) = 16383"
    by (simp add: truncateNumber_def) linarith
  have f: "ab_length monoBuffer = 45000" "ab_numberOfChannels monoBuffer = 1"
    "ab_sampleRate monoBuffer = 16000"
    by (simp_all add: monoBuffer_def)
  show ?thesis
    using h(1) audioBufferToWav_layout [of "\<lambda>x. x" monoBuffer 0 0]
    by (simp add: f s t)
qed

section \<open>Properties of the X Space service and of the provider calls\<close>

subsection \<open>Space metadata\<close>

lemma captureAfter_nonempty: "captureAfter literal cls url = Some captured \<Longrightarrow> captured \<noteq> []"
  by (induction url) (auto split: if_splits)

lemma firstMatch_nonempty: "firstMatch ps url = Some captured \<Longrightarrow> captured \<noteq> []"
  by (induction ps url rule: firstMatch.induct) (auto split: option.splits dest: captureAfter_nonempty)

lemma extractSpaceId_nonempty: "extractSpaceId url = Inr spaceId \<Longrightarrow> spaceId \<noteq> []"
  by (auto simp: extractSpaceId_def split: if_splits option.splits dest: firstMatch_nonempty)

lemma extractSpaceMetadata_returns:
  "\<exists>metadata s'. extractSpaceMetadata env spaceUrl s = (Inr metadata, s')"
  by (simp add: extractSpaceMetadata_def split: prod.splits sum.splits)

lemma extractSpaceMetadata_no_id:
  "extractSpaceId spaceUrl = Inl error \<Longrightarrow>
   extractSpaceMetadata env spaceUrl s = (Inr (basicMetadata (str ''unknown'')), s)"
  by (simp add: extractSpaceMetadata_def extractSpaceMetadata_try_def)

lemma extractSpaceMetadata_unconfigured:
  "extractSpaceId spaceUrl = Inr spaceId \<Longrightarrow> \<not> bearerTokenUsable env \<Longrightarrow>
   extractSpaceMetadata env spaceUrl s = (Inr (basicMetadata spaceId), s)"
  by (simp add: extractSpaceMetadata_def extractSpaceMetadata_try_def extractSpaceId_nonempty)

lemma extractSpaceMetadata_lookup_failed:
  "extractSpaceId spaceUrl = Inr spaceId \<Longrightarrow> bearerTokenUsable env \<Longrightarrow>
   makeApiRequest_orNull env (spaceApiUrl spaceId) (str ''GET'') s = (response, s') \<Longrightarrow>
   lookupFailed response \<Longrightarrow>
   extractSpaceMetadata env spaceUrl s = (Inr (basicMetadata spaceId), s')"
  by (auto simp: extractSpaceMetadata_def extractSpaceMetadata_try_def extractSpaceId_nonempty
      lookupFailed_def split: option.splits sum.splits)

text \<open>
  Claim C10: for every URL string \<open>extractSpaceMetadata\<close> returns metadata and does not
  raise. When no space ID can be extracted the result is the fallback with the ID
  \<open>unknown\<close> and no request is sent; when the bearer token is not usable, or the lookup
  comes back without metadata, it is the fallback with the extracted ID. The fallback
  has the title \<open>X Space Recording\<close>, the host \<open>Unknown\<close>, 0 participants and the
  state \<open>ended\<close>.
\<close>

theorem extractSpaceMetadata_total:
  "(\<exists>metadata s'. extractSpaceMetadata env spaceUrl s = (Inr metadata, s'))
   \<and> (extractSpaceId spaceUrl = Inl error \<longrightarrow>
        extractSpaceMetadata env spaceUrl s = (Inr (basicMetadata (str ''unknown'')), s))
   \<and> (extractSpaceId spaceUrl = Inr spaceId \<and> \<not> bearerTokenUsable env \<longrightarrow>
        extractSpaceMetadata env spaceUrl s = (Inr (basicMetadata spaceId), s))
   \<and> (extractSpaceId spaceUrl = Inr spaceId \<and> bearerTokenUsable env
        \<and> makeApiRequest_orNull env (spaceApiUrl spaceId) (str ''GET'') s = (response, s')
        \<and> lookupFailed response \<longrightarrow>
        extractSpaceMetadata env spaceUrl s = (Inr (basicMetadata spaceId), s'))
   \<and> md_title (basicMetadata spaceId) = str ''X Space Recording''
   \<and> md_hostUsername (basicMetadata spaceId) = str ''Unknown''
   \<and> md_participantCount (basicMetadata spaceId) = 0
   \<and> md_state (basicMetadata spaceId) = str ''ended''
   \<and> md_id (basicMetadata spaceId) = spaceId"
  using extractSpaceMetadata_returns [of env spaceUrl s]
    extractSpaceMetadata_no_id [of spaceUrl error env s]
    extractSpaceMetadata_unconfigured [of spaceUrl spaceId env s]
    extractSpaceMetadata_lookup_failed [of spaceUrl spaceId env s response s']
  by (simp add: basicMetadata_def)

lemma spaceId_example: "extractSpaceId (str ''https://x.com/i/spaces/1abc'') = Inr (str ''1abc'')"
  by (simp add: extractSpaceId_def patterns_def str_def isAlphaNumeric_def isDigit_def)

lemma spaceId_invalid: "extractSpaceId (str ''not a space'') = Inl (new_Error (str ''Invalid X Space URL format''))"
  by (simp add: extractSpaceId_def patterns_def str_def isAlphaNumeric_def isDigit_def)


lemma offline_fields:
  "twitterBearerToken offline = None" "openaiApiKey offline = None"
  "proxyUrl offline = str ''undefined''" "proxyToken offline = str ''undefined''"
  "\<not> bearerTokenUsable offline"
  "network offline = (\<lambda>w req. (Inl (JsError (str ''TypeError'') (str ''Failed to fetch'')), w))"
  by (simp_all add: offline_def twitterBearerToken_def openaiApiKey_def proxyUrl_def proxyToken_def
      bearerTokenUsable_def or_string_def)

lemma offlineWithToken_fields:
  "bearerTokenUsable offlineWithToken"
  "proxyUrl offlineWithToken = str ''undefined''"
  "network offlineWithToken = (\<lambda>w req. (Inl (JsError (str ''TypeError'') (str ''Failed to fetch'')), w))"
  by (simp_all add: offlineWithToken_def offline_def twitterBearerToken_def proxyUrl_def
      bearerTokenUsable_def or_string_def str_def)

lemma offlineWithToken_request:
  "fst (makeApiRequest_orNull offlineWithToken url method s) = None"
  by (simp add: makeApiRequest_orNull_def offlineWithToken_fields fetch_def)

theorem extractSpaceMetadata_total_witness:
  "extractSpaceId (str ''not a space'') = Inl (new_Error (str ''Invalid X Space URL format''))
   \<and> extractSpaceMetadata offline (str ''not a space'') start
       = (Inr (basicMetadata (str ''unknown'')), start)
   \<and> extractSpaceId (str ''https://x.com/i/spaces/1abc'') = Inr (str ''1abc'')
   \<and> \<not> bearerTokenUsable offline
   \<and> extractSpaceMetadata offline (str ''https://x.com/i/spaces/1abc'') start
       = (Inr (basicMetadata (str ''1abc'')), start)
   \<and> bearerTokenUsable offlineWithToken
   \<and> lookupFailed (fst (makeApiRequest_orNull offlineWithToken (spaceApiUrl (str ''1abc''))
                            (str ''GET'') start))
   \<and> extractSpaceMetadata offlineWithToken (str ''https://x.com/i/spaces/1abc'') start
       = (Inr (basicMetadata (str ''1abc'')),
          snd (makeApiRequest_orNull offlineWithToken (spaceApiUrl (str ''1abc'')) (str ''GET'') start))"
proof -
  let ?url = "str ''https://x.com/i/spaces/1abc''"
  let ?lookup = "makeApiRequest_orNull offlineWithToken (spaceApiUrl (str ''1abc'')) (str ''GET'') start"
  have l: "lookupFailed (fst ?lookup)"
    by (simp add: offlineWithToken_request lookupFailed_def)
  have p: "?lookup = (fst ?lookup, snd ?lookup)" by simp
  show ?thesis
    using spaceId_invalid spaceId_example offline_fields(5) offlineWithToken_fields(1) l p
      extractSpaceMetadata_total [of offline "str ''not a space''" start
        "new_Error (str ''Invalid X Space URL format'')" "str ''1abc''" None start]
      extractSpaceMetadata_total [of offline ?url start
        "new_Error (str ''Invalid X Space URL format'')" "str ''1abc''" None start]
      extractSpaceMetadata_total [of offlineWithToken ?url start
        "new_Error (str ''Invalid X Space URL format'')" "str ''1abc''" "fst ?lookup" "snd ?lookup"]
    by blast
qed

subsection \<open>Calls to the provider\<close>

lemma typedSegment_None: "typedSegment element = None \<longleftrightarrow> element = NullSegment \<or> otherText element"
  by (cases element rule: typedSegment.cases) simp_all

lemma readTranscription_fails_iff:
  "isl (readTranscription rnd data) \<longleftrightarrow> unexpectedTranscriptionJson data"
  by (cases data; simp add: readTranscription_def list_ex_iff typedSegment_None split: SegmentsJson.splits)
     (auto simp: typedSegment_None)

lemma parseSummaryResponse_not_Inl: "parseSummaryResponse J U content speakers \<noteq> Inl error"
  by (simp add: parseSummaryResponse_def split: sum.splits option.splits)

lemma parseSummaryResponse_not_isl: "\<not> isl (parseSummaryResponse J U content speakers)"
  using parseSummaryResponse_not_Inl [of J U content speakers] by (cases "parseSummaryResponse J U content speakers") auto

lemma transcribeAudio_unconfigured:
  "\<not> present (openaiApiKey env) \<Longrightarrow> transcribeAudio env audioBlob filename s = (Inl notConfigured, s)"
  by (simp add: transcribeAudio_def)

lemma generateSummary_unconfigured:
  "\<not> present (openaiApiKey env) \<Longrightarrow> generateSummary env transcript speakers s = (Inl notConfigured, s)"
  by (simp add: generateSummary_def)

lemma completion_fails_iff:
  "isl (fst (case b_content data of
                       NullCompletion \<Rightarrow>
                         (Inl (typeError (str ''Cannot read properties of null'')), s')
                     | CompletionContent None \<Rightarrow>
                         (Inl (new_Error (str ''No summary content received from API'')), s')
                     | CompletionContent (Some content) \<Rightarrow>
                         if \<not> truthy content
                         then (Inl (new_Error (str ''No summary content received from API'')), s')
                         else (case content of
                                 JString answer \<Rightarrow>
                                   (parseSummaryResponse J U answer speakers, s')
                               | _ \<Rightarrow>
                                   (Inl (typeError (str ''content.split is not a function'')), s'))))
   \<longleftrightarrow> unexpectedCompletionJson (b_content data)
       \<or> (case b_content data of
                  NullCompletion \<Rightarrow> False
                | CompletionContent None \<Rightarrow> True
                | CompletionContent (Some content) \<Rightarrow> \<not> truthy content)"
  by (auto simp: parseSummaryResponse_not_isl split: CompletionJson.splits option.splits json.splits)

lemma generateSummary_fails_iff:
  assumes "present (openaiApiKey env)"
  shows "isl (fst (generateSummary env transcript speakers s))
           \<longleftrightarrow> requestFailed (fst (makeApiRequest env (str ''https://api.openai.com/v1/chat/completions'') (str ''POST'') s))
               \<or> noContent (fst (makeApiRequest env (str ''https://api.openai.com/v1/chat/completions'') (str ''POST'') s))
               \<or> unexpectedContent (fst (makeApiRequest env (str ''https://api.openai.com/v1/chat/completions'') (str ''POST'') s))"
proof -
  let ?r = "makeApiRequest env (str ''https://api.openai.com/v1/chat/completions'') (str ''POST'') s"
  obtain outcome s' where r: "?r = (outcome, s')" by (cases ?r)
  show ?thesis
  proof (cases outcome)
    case (Inl error)
    then show ?thesis using assms r
      by (simp add: generateSummary_def generateSummary_try_def requestFailed_def)
  next
    case (Inr response)
    show ?thesis
    proof (cases "resp_ok response")
      case False
      then show ?thesis using assms r Inr
        by (simp add: generateSummary_def generateSummary_try_def requestFailed_def)
    next
      case True
      show ?thesis
      proof (cases "resp_json response")
        case (Inl error)
        then show ?thesis using assms r Inr True
          by (simp add: generateSummary_def generateSummary_try_def requestFailed_def)
      next
        case body: (Inr data)
        have "isl (fst (generateSummary env transcript speakers s))
                \<longleftrightarrow> isl (fst (generateSummary_try env transcript speakers s))"
          using assms by (simp add: generateSummary_def split: prod.splits sum.splits)
        also have "\<dots> \<longleftrightarrow> unexpectedCompletionJson (b_content data)
                   \<or> (case b_content data of
                          NullCompletion \<Rightarrow> False
                        | CompletionContent None \<Rightarrow> True
                        | CompletionContent (Some content) \<Rightarrow> \<not> truthy content)"
          using r Inr True body completion_fails_iff [where data = data and s' = s' and J = "jsonParse env" and U = "caseTable env" and speakers = speakers]
          by (simp add: generateSummary_try_def)
        finally show ?thesis using r Inr True body
          by (auto simp: requestFailed_def noContent_def unexpectedContent_def)
      qed
    qed
  qed
qed

lemma transcribeAudio_fails_iff:
  assumes "present (openaiApiKey env)"
  shows "isl (fst (transcribeAudio env audioBlob filename s))
           \<longleftrightarrow> requestFailed (fst (makeApiRequest env (str ''https://api.openai.com/v1/audio/transcriptions'') (str ''POST'') s))
             \<or> unexpectedTranscription (fst (makeApiRequest env (str ''https://api.openai.com/v1/audio/transcriptions'') (str ''POST'') s))"
proof -
  let ?r = "makeApiRequest env (str ''https://api.openai.com/v1/audio/transcriptions'') (str ''POST'') s"
  obtain outcome s' where r: "?r = (outcome, s')" by (cases ?r)
  have w: "isl (fst (transcribeAudio env audioBlob filename s))
             \<longleftrightarrow> isl (fst (transcribeAudio_try env audioBlob filename s))"
    using assms by (simp add: transcribeAudio_def split: prod.splits sum.splits)
  show ?thesis
  proof (cases outcome)
    case (Inl error)
    then show ?thesis using r w
      by (simp add: transcribeAudio_try_def requestFailed_def)
  next
    case (Inr response)
    show ?thesis
    proof (cases "resp_ok response")
      case False
      then show ?thesis using r w Inr
        by (simp add: transcribeAudio_try_def requestFailed_def)
    next
      case True
      show ?thesis
      proof (cases "resp_json response")
        case (Inl error)
        then show ?thesis using r w Inr True
          by (simp add: transcribeAudio_try_def requestFailed_def)
      next
        case body: (Inr data)
        have "isl (fst (transcribeAudio_try env audioBlob filename s))
                \<longleftrightarrow> unexpectedTranscriptionJson (b_transcription data)"
          using r Inr True body
          by (simp add: transcribeAudio_try_def readTranscription_fails_iff)
        then show ?thesis using r w Inr True body
          by (simp add: requestFailed_def unexpectedTranscription_def)
      qed
    qed
  qed
qed


lemma offlineWithKey_fields:
  "present (openaiApiKey offlineWithKey)"
  "proxyUrl offlineWithKey = str ''undefined''"
  "network offlineWithKey = (\<lambda>w req. (Inl (JsError (str ''TypeError'') (str ''Failed to fetch'')), w))"
  by (simp_all add: offlineWithKey_def offline_def openaiApiKey_def proxyUrl_def present_def
      or_string_def str_def)

lemma offlineWithKey_request:
  "requestFailed (fst (makeApiRequest offlineWithKey url method s))"
  by (simp add: makeApiRequest_def offlineWithKey_fields fetch_def requestFailed_def)

lemma answering_fields:
  "present (openaiApiKey (answering body))"
  "proxyUrl (answering body) = str ''undefined''"
  "network (answering body) = (\<lambda>w req.
        (Inr \<lparr>resp_ok = True, resp_statusText = str ''OK'',
              resp_json = Inr body, resp_blob = Inr emptyAudio\<rparr>, w))"
  "jsonParse (answering body) = jsonParse offline"
  "caseTable (answering body) = (\<lambda>s. s)"
  "rounding (answering body) = binary64"
  using offlineWithKey_fields
  by (simp_all add: answering_def openaiApiKey_def proxyUrl_def offlineWithKey_def offline_def)

lemma answering_request:
  "fst (makeApiRequest (answering body) url method s)
     = Inr \<lparr>resp_ok = True, resp_statusText = str ''OK'',
            resp_json = Inr body, resp_blob = Inr emptyAudio\<rparr>"
  by (simp add: makeApiRequest_def answering_fields fetch_def)

lemma answering_readable:
  "\<not> requestFailed (fst (makeApiRequest (answering body) url method s))"
  by (simp add: answering_request requestFailed_def)

lemma answering_unexpected:
  "unexpectedTranscription (fst (makeApiRequest (answering body) url method s))
     = unexpectedTranscriptionJson (b_transcription body)"
  "unexpectedContent (fst (makeApiRequest (answering body) url method s))
     = unexpectedCompletionJson (b_content body)"
  "noContent (fst (makeApiRequest (answering body) url method s))
     = (case b_content body of
                  NullCompletion \<Rightarrow> False
                | CompletionContent None \<Rightarrow> True
                | CompletionContent (Some content) \<Rightarrow> \<not> truthy content)"
  by (simp_all add: answering_request unexpectedTranscription_def unexpectedContent_def noContent_def)

lemma expectedBody_shape:
  "\<not> unexpectedTranscriptionJson (b_transcription expectedBody)"
  "\<not> unexpectedCompletionJson (b_content expectedBody)"
  "b_content expectedBody = CompletionContent (Some (JString (str ''All went well.'')))"
  by (simp_all add: expectedBody_def str_def)

text \<open>
  Claim C9, as stated, fails: with an API key, a request that succeeds and brings a
  readable body with content can still end in a failure. A transcription whose only
  segment is \<open>null\<close> makes \<open>transcribeAudio\<close> fail, and a completion whose content is
  the number 42 makes \<open>generateSummary\<close> fail, although neither request failed and the
  content is not absent or empty.
\<close>

theorem provider_calls_unexpected_body_counterexample:
  "present (openaiApiKey (answering nullSegmentBody))
   \<and> \<not> requestFailed (fst (makeApiRequest (answering nullSegmentBody)
            (str ''https://api.openai.com/v1/audio/transcriptions'') (str ''POST'') start))
   \<and> isl (fst (transcribeAudio (answering nullSegmentBody)
                  \<lparr>blob_bytes = [], blob_type = str ''audio/wav''\<rparr> (str ''audio.wav'') start))
   \<and> present (openaiApiKey (answering numericContentBody))
   \<and> \<not> requestFailed (fst (makeApiRequest (answering numericContentBody)
            (str ''https://api.openai.com/v1/chat/completions'') (str ''POST'') start))
   \<and> \<not> noContent (fst (makeApiRequest (answering numericContentBody)
            (str ''https://api.openai.com/v1/chat/completions'') (str ''POST'') start))
   \<and> isl (fst (generateSummary (answering numericContentBody)
                  (str ''Yes.'') [str ''Speaker 1''] start))"
proof -
  have t: "isl (fst (transcribeAudio (answering nullSegmentBody)
                  \<lparr>blob_bytes = [], blob_type = str ''audio/wav''\<rparr> (str ''audio.wav'') start))"
    by (simp add: transcribeAudio_def transcribeAudio_try_def makeApiRequest_def fetch_def
        answering_fields nullSegmentBody_def readTranscription_def)
  have g: "isl (fst (generateSummary (answering numericContentBody)
                  (str ''Yes.'') [str ''Speaker 1''] start))"
    by (simp add: generateSummary_def generateSummary_try_def makeApiRequest_def fetch_def
        answering_fields numericContentBody_def)
  have n: "\<not> noContent (fst (makeApiRequest (answering numericContentBody)
            (str ''https://api.openai.com/v1/chat/completions'') (str ''POST'') start))"
    by (simp add: answering_unexpected numericContentBody_def)
  show ?thesis using t g n answering_fields(1) answering_readable by blast
qed

text \<open>
  Claim C9, amended: without an API key \<open>transcribeAudio\<close> and \<open>generateSummary\<close> fail
  with the configuration error and leave the run as it was: no request is sent. With a
  key, \<open>transcribeAudio\<close> fails exactly when the request fails or the body it reads has
  an unexpected shape (a \<open>null\<close> body, a truthy \<open>segments\<close> that is not an array, a
  \<open>null\<close> segment, a segment text that is truthy and not a string), and
  \<open>generateSummary\<close> exactly when the request fails, the answer has no content, or the
  body has an unexpected shape (a \<open>null\<close> body, a content that is truthy and not a
  string).
\<close>

theorem provider_calls_fail_exactly:
  "(\<not> present (openaiApiKey env) \<longrightarrow>
      transcribeAudio env audioBlob filename s = (Inl notConfigured, s)
      \<and> generateSummary env transcript speakers s = (Inl notConfigured, s))
   \<and> (present (openaiApiKey env) \<longrightarrow>
        (isl (fst (transcribeAudio env audioBlob filename s))
           \<longleftrightarrow> requestFailed (fst (makeApiRequest env
                  (str ''https://api.openai.com/v1/audio/transcriptions'') (str ''POST'') s))
               \<or> unexpectedTranscription (fst (makeApiRequest env
                  (str ''https://api.openai.com/v1/audio/transcriptions'') (str ''POST'') s)))
        \<and> (isl (fst (generateSummary env transcript speakers s))
           \<longleftrightarrow> requestFailed (fst (makeApiRequest env
                  (str ''https://api.openai.com/v1/chat/completions'') (str ''POST'') s))
               \<or> noContent (fst (makeApiRequest env
                  (str ''https://api.openai.com/v1/chat/completions'') (str ''POST'') s))
               \<or> unexpectedContent (fst (makeApiRequest env
                  (str ''https://api.openai.com/v1/chat/completions'') (str ''POST'') s))))"
  using transcribeAudio_unconfigured [of env audioBlob filename s]
    generateSummary_unconfigured [of env transcript speakers s]
    transcribeAudio_fails_iff [of env audioBlob filename s]
    generateSummary_fails_iff [of env transcript speakers s]
  by blast

theorem provider_calls_fail_exactly_witness:
  "\<not> present (openaiApiKey offline)
   \<and> transcribeAudio offline \<lparr>blob_bytes = [], blob_type = str ''audio/wav''\<rparr>
        (str ''audio.wav'') start = (Inl notConfigured, start)
   \<and> generateSummary offline (str ''Yes.'') [str ''Speaker 1''] start = (Inl notConfigured, start)
   \<and> present (openaiApiKey offlineWithKey)
   \<and> isl (fst (transcribeAudio offlineWithKey \<lparr>blob_bytes = [], blob_type = str ''audio/wav''\<rparr>
                  (str ''audio.wav'') start))
   \<and> isl (fst (generateSummary offlineWithKey (str ''Yes.'') [str ''Speaker 1''] start))
   \<and> present (openaiApiKey (answering expectedBody))
   \<and> \<not> isl (fst (transcribeAudio (answering expectedBody)
                    \<lparr>blob_bytes = [], blob_type = str ''audio/wav''\<rparr> (str ''audio.wav'') start))
   \<and> \<not> isl (fst (generateSummary (answering expectedBody) (str ''Yes.'') [str ''Speaker 1''] start))"
proof -
  have h: "\<not> present (openaiApiKey offline)" "present (openaiApiKey offlineWithKey)"
    by (simp add: offline_fields present_def) (rule offlineWithKey_fields(1))
  have e: "\<not> unexpectedTranscription (fst (makeApiRequest (answering expectedBody)
                (str ''https://api.openai.com/v1/audio/transcriptions'') (str ''POST'') start))"
    "\<not> unexpectedContent (fst (makeApiRequest (answering expectedBody)
                (str ''https://api.openai.com/v1/chat/completions'') (str ''POST'') start))"
    "\<not> noContent (fst (makeApiRequest (answering expectedBody)
                (str ''https://api.openai.com/v1/chat/completions'') (str ''POST'') start))"
    by (simp_all add: answering_unexpected expectedBody_shape str_def)
  show ?thesis
    using h e offlineWithKey_request [of _ _ start] answering_fields(1) [of expectedBody]
      answering_readable [of expectedBody _ _ start]
      provider_calls_fail_exactly [of offline "\<lparr>blob_bytes = [], blob_type = str ''audio/wav''\<rparr>"
        "str ''audio.wav''" start "str ''Yes.''" "[str ''Speaker 1'']"]
      provider_calls_fail_exactly [of offlineWithKey "\<lparr>blob_bytes = [], blob_type = str ''audio/wav''\<rparr>"
        "str ''audio.wav''" start "str ''Yes.''" "[str ''Speaker 1'']"]
      provider_calls_fail_exactly [of "answering expectedBody"
        "\<lparr>blob_bytes = [], blob_type = str ''audio/wav''\<rparr>"
        "str ''audio.wav''" start "str ''Yes.''" "[str ''Speaker 1'']"]
    by blast
qed

subsection \<open>The pipeline of a remote submission\<close>

lemma fetch_events: "fetch env req s = (outcome, s') \<Longrightarrow> events s' = events s @ [Fetch req]"
  by (auto simp: fetch_def split: prod.splits)

lemma makeApiRequest_orNull_events:
  "makeApiRequest_orNull env url method s = (response, s') \<Longrightarrow>
   \<exists>req. events s' = events s @ [Fetch req]"
  by (auto simp: makeApiRequest_orNull_def split: prod.splits sum.splits if_splits dest: fetch_events)

lemma firstReachable_events:
  "firstReachable env urls s = (found, s') \<Longrightarrow> \<exists>reqs. events s' = events s @ map Fetch reqs"
proof (induction urls arbitrary: s)
  case Nil
  then show ?case by simp
next
  case (Cons url urls)
  obtain response s1 where r: "makeApiRequest_orNull env url (str ''HEAD'') s = (response, s1)"
    by (cases "makeApiRequest_orNull env url (str ''HEAD'') s")
  then obtain req where e1: "events s1 = events s @ [Fetch req]"
    using makeApiRequest_orNull_events by blast
  show ?case
  proof (cases "\<exists>resp. response = Some resp \<and> resp_ok resp")
    case True
    then have "s' = s1" using Cons.prems r by auto
    then have "events s' = events s @ map Fetch [req]" using e1 by simp
    then show ?thesis by blast
  next
    case False
    then have "firstReachable env urls s1 = (found, s')"
      using Cons.prems r by (auto split: option.splits if_splits)
    then obtain reqs where "events s' = events s1 @ map Fetch reqs" using Cons.IH by blast
    then have "events s' = events s @ map Fetch (req # reqs)" using e1 by simp
    then show ?thesis by blast
  qed
qed

lemma audioStreamLookup_events:
  "audioStreamLookup env spaceId s = (outcome, s') \<Longrightarrow> \<exists>reqs. events s' = events s @ map Fetch reqs"
proof (cases "bearerTokenUsable env")
  case False
  assume "audioStreamLookup env spaceId s = (outcome, s')"
  then have "s' = s" using False by (simp add: audioStreamLookup_def)
  then have "events s' = events s @ map Fetch []" by simp
  then show ?thesis by blast
next
  case True
  assume a: "audioStreamLookup env spaceId s = (outcome, s')"
  obtain response s1 where r: "makeApiRequest_orNull env
       (str ''https://api.twitter.com/2/spaces/'' @ spaceId @ str ''/audio_stream'') (str ''GET'') s
       = (response, s1)"
    by (cases "makeApiRequest_orNull env
       (str ''https://api.twitter.com/2/spaces/'' @ spaceId @ str ''/audio_stream'') (str ''GET'') s")
  then obtain req where e1: "events s1 = events s @ [Fetch req]"
    using makeApiRequest_orNull_events by blast
  have "s' = s1" using a r True
    by (auto simp: audioStreamLookup_def split: option.splits sum.splits if_splits)
  then have "events s' = events s @ map Fetch [req]" using e1 by simp
  then show ?thesis by blast
qed

lemma extractAudioUrl_events:
  "extractAudioUrl env spaceUrl s = (outcome, s') \<Longrightarrow> \<exists>reqs. events s' = events s @ map Fetch reqs"
proof -
  assume a: "extractAudioUrl env spaceUrl s = (outcome, s')"
  show ?thesis
  proof (cases "extractSpaceId spaceUrl")
    case (Inl error)
    then have "s' = s" using a by (simp add: extractAudioUrl_def)
    then have "events s' = events s @ map Fetch []" by simp
    then show ?thesis by blast
  next
    case (Inr spaceId)
    obtain found s1 where f: "firstReachable env (possibleUrls spaceId) s = (found, s1)"
      by (cases "firstReachable env (possibleUrls spaceId) s")
    then obtain reqs1 where e1: "events s1 = events s @ map Fetch reqs1"
      using firstReachable_events by blast
    show ?thesis
    proof (cases found)
      case (Some url)
      then have "s' = s1" using a Inr f by (simp add: extractAudioUrl_def)
      then show ?thesis using e1 by blast
    next
      case None
      then have "audioStreamLookup env spaceId s1 = (outcome, s')"
        using a Inr f by (simp add: extractAudioUrl_def)
      then obtain reqs2 where "events s' = events s1 @ map Fetch reqs2"
        using audioStreamLookup_events by blast
      then have "events s' = events s @ map Fetch (reqs1 @ reqs2)" using e1 by simp
      then show ?thesis by blast
    qed
  qed
qed

lemma extractAudioFromUrl_events:
  "extractAudioFromUrl env url s = (outcome, s') \<Longrightarrow> \<exists>req. events s' = events s @ [Fetch req]"
  by (auto simp: extractAudioFromUrl_def split: prod.splits sum.splits if_splits dest: fetch_events)

lemma extractSpaceMetadata_events:
  "extractSpaceMetadata env spaceUrl s = (outcome, s') \<Longrightarrow>
   \<exists>reqs. events s' = events s @ map Fetch reqs"
proof -
  assume a: "extractSpaceMetadata env spaceUrl s = (outcome, s')"
  have "s' = s \<or> (\<exists>url response. makeApiRequest_orNull env url (str ''GET'') s = (response, s'))"
    using a
    by (auto simp: extractSpaceMetadata_def extractSpaceMetadata_try_def
        split: prod.splits sum.splits option.splits if_splits)
  then show ?thesis
  proof
    assume "s' = s"
    then have "events s' = events s @ map Fetch []" by simp
    then show ?thesis by blast
  next
    assume "\<exists>url response. makeApiRequest_orNull env url (str ''GET'') s = (response, s')"
    then obtain req where "events s' = events s @ [Fetch req]"
      using makeApiRequest_orNull_events by blast
    then have "events s' = events s @ map Fetch [req]" by simp
    then show ?thesis by blast
  qed
qed


lemma processXSpace_no_url:
  "extractSpaceMetadata env spaceUrl s = (Inr metadata, s1) \<Longrightarrow>
   extractAudioUrl env spaceUrl s1 = (Inl e, s2) \<Longrightarrow>
   processXSpace env spaceUrl s = (Inl audioUnavailable, s2)"
  by (simp add: processXSpace_def obtainAudio_def)

lemma processXSpace_no_audio:
  "extractSpaceMetadata env spaceUrl s = (Inr metadata, s1) \<Longrightarrow>
   extractAudioUrl env spaceUrl s1 = (Inr audioUrl, s2) \<Longrightarrow>
   extractAudioFromUrl env audioUrl s2 = (Inl e, s3) \<Longrightarrow>
   processXSpace env spaceUrl s = (Inl audioUnavailable, s3)"
  by (simp add: processXSpace_def obtainAudio_def)

lemma processXSpace_stages:
  assumes "extractSpaceMetadata env spaceUrl s = (Inr metadata, s1)"
    and "extractAudioUrl env spaceUrl s1 = (Inr audioUrl, s2)"
    and "extractAudioFromUrl env audioUrl s2 = (Inr audioBlob, s3)"
  shows "convertToWav env audioBlob s3 = (Inl e, s4) \<Longrightarrow>
           processXSpace env spaceUrl s = (Inl e, s4)"
    and "convertToWav env audioBlob s3 = (Inr processedAudio, s4) \<Longrightarrow>
         transcribeAudio env processedAudio (md_title metadata @ str ''.wav'') s4 = (Inl e, s5) \<Longrightarrow>
           processXSpace env spaceUrl s = (Inl e, s5)"
    and "convertToWav env audioBlob s3 = (Inr processedAudio, s4) \<Longrightarrow>
         transcribeAudio env processedAudio (md_title metadata @ str ''.wav'') s4
           = (Inr transcription, s5) \<Longrightarrow>
         generateSummary env (tr_text transcription) (tr_speakers transcription) s5 = (Inl e, s6) \<Longrightarrow>
           processXSpace env spaceUrl s = (Inl e, s6)"
    and "convertToWav env audioBlob s3 = (Inr processedAudio, s4) \<Longrightarrow>
         transcribeAudio env processedAudio (md_title metadata @ str ''.wav'') s4
           = (Inr transcription, s5) \<Longrightarrow>
         generateSummary env (tr_text transcription) (tr_speakers transcription) s5
           = (Inr summaryResult, s6) \<Longrightarrow>
           processXSpace env spaceUrl s
             = (Inr \<lparr>pr_metadata = metadata, pr_transcription = transcription,
                     pr_summary = summaryResult, pr_audioUrl = Some audioUrl\<rparr>, s6)"
  using assms by (simp_all add: processXSpace_def obtainAudio_def)

lemma resolution_events:
  assumes "extractSpaceMetadata env spaceUrl s = (Inr metadata, s1)"
  shows "extractAudioUrl env spaceUrl s1 = (outcome, s2) \<Longrightarrow>
           \<exists>reqs. events s2 = events s @ map Fetch reqs"
    and "extractAudioUrl env spaceUrl s1 = (Inr audioUrl, s2) \<Longrightarrow>
         extractAudioFromUrl env audioUrl s2 = (outcome', s3) \<Longrightarrow>
           \<exists>reqs. events s3 = events s @ map Fetch reqs"
proof -
  obtain reqs1 where e1: "events s1 = events s @ map Fetch reqs1"
    using extractSpaceMetadata_events [OF assms] by blast
  {
    fix outcome assume "extractAudioUrl env spaceUrl s1 = (outcome, s2)"
    then obtain reqs2 where "events s2 = events s1 @ map Fetch reqs2"
      using extractAudioUrl_events by blast
    then have "events s2 = events s @ map Fetch (reqs1 @ reqs2)" using e1 by simp
    then have "\<exists>reqs. events s2 = events s @ map Fetch reqs" by blast
  }
  note a = this
  show "extractAudioUrl env spaceUrl s1 = (outcome, s2) \<Longrightarrow>
           \<exists>reqs. events s2 = events s @ map Fetch reqs"
    by (rule a)
  show "extractAudioUrl env spaceUrl s1 = (Inr audioUrl, s2) \<Longrightarrow>
         extractAudioFromUrl env audioUrl s2 = (outcome', s3) \<Longrightarrow>
           \<exists>reqs. events s3 = events s @ map Fetch reqs"
  proof -
    assume u: "extractAudioUrl env spaceUrl s1 = (Inr audioUrl, s2)"
      and f: "extractAudioFromUrl env audioUrl s2 = (outcome', s3)"
    obtain reqs2 where e2: "events s2 = events s @ map Fetch reqs2" using a [OF u] by blast
    obtain req where "events s3 = events s2 @ [Fetch req]"
      using extractAudioFromUrl_events [OF f] by blast
    then have "events s3 = events s @ map Fetch (reqs2 @ [req])" using e2 by simp
    then show ?thesis by blast
  qed
qed

text \<open>
  Claim C8: after the metadata step, when no audio URL is found or the audio cannot be
  fetched, \<open>processXSpace\<close> fails with \<open>audioUnavailable\<close> in the state those steps left,
  in which only requests have been added to the events: nothing was decoded and no later
  step ran. When \<open>convertToWav\<close>, \<open>transcribeAudio\<close> or \<open>generateSummary\<close> fails, it
  fails with that step's error, in that step's state; it returns a result only when every
  step has succeeded, and the result then holds what each step returned.
\<close>

theorem processXSpace_failures:
  "extractSpaceMetadata env spaceUrl s = (Inr metadata, s1) \<Longrightarrow>
   (extractAudioUrl env spaceUrl s1 = (Inl e, s2) \<longrightarrow>
      processXSpace env spaceUrl s = (Inl audioUnavailable, s2)
      \<and> (\<exists>reqs. events s2 = events s @ map Fetch reqs))
   \<and> (extractAudioUrl env spaceUrl s1 = (Inr audioUrl, s2) \<longrightarrow>
        (extractAudioFromUrl env audioUrl s2 = (Inl e, s3) \<longrightarrow>
           processXSpace env spaceUrl s = (Inl audioUnavailable, s3)
           \<and> (\<exists>reqs. events s3 = events s @ map Fetch reqs))
        \<and> (extractAudioFromUrl env audioUrl s2 = (Inr audioBlob, s3) \<longrightarrow>
             (convertToWav env audioBlob s3 = (Inl e, s4) \<longrightarrow>
                processXSpace env spaceUrl s = (Inl e, s4))
             \<and> (convertToWav env audioBlob s3 = (Inr processedAudio, s4) \<longrightarrow>
                  (transcribeAudio env processedAudio (md_title metadata @ str ''.wav'') s4
                     = (Inl e, s5) \<longrightarrow>
                     processXSpace env spaceUrl s = (Inl e, s5))
                  \<and> (transcribeAudio env processedAudio (md_title metadata @ str ''.wav'') s4
                       = (Inr transcription, s5) \<longrightarrow>
                       (generateSummary env (tr_text transcription) (tr_speakers transcription) s5
                          = (Inl e, s6) \<longrightarrow>
                          processXSpace env spaceUrl s = (Inl e, s6))
                       \<and> (generateSummary env (tr_text transcription) (tr_speakers transcription) s5
                            = (Inr summaryResult, s6) \<longrightarrow>
                            processXSpace env spaceUrl s
                              = (Inr \<lparr>pr_metadata = metadata, pr_transcription = transcription,
                                      pr_summary = summaryResult, pr_audioUrl = Some audioUrl\<rparr>,
                                 s6))))))"
proof -
  assume m: "extractSpaceMetadata env spaceUrl s = (Inr metadata, s1)"
  show ?thesis
    using processXSpace_no_url [OF m, of e s2]
      processXSpace_no_audio [OF m, of audioUrl s2 e s3]
      processXSpace_stages [OF m, of audioUrl s2 audioBlob s3]
      resolution_events(1) [OF m, of "Inl e" s2]
      resolution_events(2) [OF m, of audioUrl s2 "Inl e" s3]
    by blast
qed

lemma offline_firstReachable: "fst (firstReachable offline urls s) = None"
  by (induction urls arbitrary: s)
     (simp_all add: makeApiRequest_orNull_def offline_fields fetch_def)

lemma offline_extractAudioUrl:
  "extractSpaceId spaceUrl = Inr spaceId \<Longrightarrow> fst (extractAudioUrl offline spaceUrl s) = Inl noStreams"
  using offline_firstReachable [of "possibleUrls spaceId" s]
  by (auto simp: extractAudioUrl_def audioStreamLookup_def offline_fields split: prod.splits)

lemma undecodable_fields:
  "\<not> bearerTokenUsable undecodable"
  "proxyUrl undecodable = str ''undefined''"
  "network undecodable = (\<lambda>w req.
        (Inr \<lparr>resp_ok = True, resp_statusText = str ''OK'',
              resp_json = Inl (JsError (str ''SyntaxError'') (str ''Unexpected end of JSON input'')),
              resp_blob = Inr emptyAudio\<rparr>, w))"
  "decodeAudioData undecodable
     = (\<lambda>blob. Inl (JsError (str ''EncodingError'') (str ''Unable to decode audio data'')))"
  by (simp_all add: undecodable_def offline_def twitterBearerToken_def proxyUrl_def
      bearerTokenUsable_def or_string_def)

lemma undecodable_metadata:
  "extractSpaceMetadata undecodable (str ''https://x.com/i/spaces/1abc'') start
     = (Inr (basicMetadata (str ''1abc'')), start)"
  using spaceId_example undecodable_fields(1) by (rule extractSpaceMetadata_unconfigured)

lemma undecodable_audioUrl:
  "fst (extractAudioUrl undecodable (str ''https://x.com/i/spaces/1abc'') s)
     = Inr (hd (possibleUrls (str ''1abc'')))"
  by (simp add: extractAudioUrl_def spaceId_example possibleUrls_def makeApiRequest_orNull_def
      undecodable_fields fetch_def)

lemma undecodable_audio:
  "fst (extractAudioFromUrl undecodable url s) = Inr emptyAudio"
  by (simp add: extractAudioFromUrl_def undecodable_fields fetch_def)

lemma undecodable_convert:
  "fst (convertToWav undecodable blob s)
     = Inl (JsError (str ''EncodingError'') (str ''Unable to decode audio data''))"
  by (simp add: convertToWav_def undecodable_fields Let_def)

theorem processXSpace_failures_witness:
  "extractSpaceMetadata offline (str ''https://x.com/i/spaces/1abc'') start
     = (Inr (basicMetadata (str ''1abc'')), start)
   \<and> fst (extractAudioUrl offline (str ''https://x.com/i/spaces/1abc'') start) = Inl noStreams
   \<and> processXSpace offline (str ''https://x.com/i/spaces/1abc'') start
       = (Inl audioUnavailable, snd (extractAudioUrl offline (str ''https://x.com/i/spaces/1abc'') start))
   \<and> extractSpaceMetadata undecodable (str ''https://x.com/i/spaces/1abc'') start
       = (Inr (basicMetadata (str ''1abc'')), start)
   \<and> fst (processXSpace undecodable (str ''https://x.com/i/spaces/1abc'') start)
       = Inl (JsError (str ''EncodingError'') (str ''Unable to decode audio data''))"
proof -
  let ?url = "str ''https://x.com/i/spaces/1abc''"
  have m: "extractSpaceMetadata offline ?url start = (Inr (basicMetadata (str ''1abc'')), start)"
    using spaceId_example offline_fields(5) by (rule extractSpaceMetadata_unconfigured)
  have u: "fst (extractAudioUrl offline ?url start) = Inl noStreams"
    using spaceId_example by (rule offline_extractAudioUrl)
  then have u': "extractAudioUrl offline ?url start = (Inl noStreams, snd (extractAudioUrl offline ?url start))"
    by (metis prod.collapse)
  have a: "processXSpace offline ?url start
       = (Inl audioUnavailable, snd (extractAudioUrl offline ?url start))"
    using u' processXSpace_failures [OF m, of noStreams "snd (extractAudioUrl offline ?url start)"]
    by blast
  let ?e = "JsError (str ''EncodingError'') (str ''Unable to decode audio data'')"
  let ?u = "extractAudioUrl undecodable ?url start"
  let ?f = "extractAudioFromUrl undecodable (hd (possibleUrls (str ''1abc''))) (snd ?u)"
  let ?c = "convertToWav undecodable emptyAudio (snd ?f)"
  have s1: "?u = (Inr (hd (possibleUrls (str ''1abc''))), snd ?u)"
    using undecodable_audioUrl [of start] by (metis prod.collapse)
  have s2: "?f = (Inr emptyAudio, snd ?f)"
    using undecodable_audio [of "hd (possibleUrls (str ''1abc''))" "snd ?u"] by (metis prod.collapse)
  have s3: "?c = (Inl ?e, snd ?c)"
    using undecodable_convert [of emptyAudio "snd ?f"] by (metis prod.collapse)
  have "processXSpace undecodable ?url start = (Inl ?e, snd ?c)"
    using s1 s2 s3
      processXSpace_failures [OF undecodable_metadata,
        of ?e "snd ?u" "hd (possibleUrls (str ''1abc''))" "snd ?f" emptyAudio "snd ?c"]
    by blast
  then have b: "fst (processXSpace undecodable ?url start) = Inl ?e" by simp
  show ?thesis using m u a undecodable_metadata b by blast
qed

end
